theory Spec2Isabelle
  imports Complex_Main "HOL-Library.AList"
begin

section \<open>Values of the exchange format\<close>

text \<open>
  The module \<^verbatim>\<open>onnxgraphqt/graph/onnx_node_graph.py\<close> translates between an
  onnx-graphsurgeon graph (\<^verbatim>\<open>gs.Graph\<close>) and a NodeGraphQt node graph. Python
  exceptions are values of \<open>error\<close>; a function that can raise returns
  \<open>error + 'a\<close> with \<open>Inl\<close> for the exception.
\<close>

type_synonym name = string

text \<open>A numpy dtype is represented by its printed name, so \<^verbatim>\<open>str(dtype)\<close> is the
  name itself and \<^verbatim>\<open>str(None)\<close> is the text \<^verbatim>\<open>None\<close>.\<close>

type_synonym dtype = string

datatype error =
    KeyError string
  | AttributeError string
  | IndexError
  | ValueError
  | TypeError
  | PortError

text \<open>A graphsurgeon shape lists integer dimensions and symbolic ones.\<close>

datatype dim = Dim int | SymDim string

type_synonym shape = "dim list"

text \<open>A numpy array: element type, concrete shape and the elements in row-major order.\<close>

datatype ndarray = NDArray (arr_dtype: dtype) (arr_shape: "nat list") (arr_data: "rat list")

text \<open>
  The classes of tensor objects the source tells apart with \<^verbatim>\<open>type(t) is ...\<close>:
  the bare base class \<^verbatim>\<open>gs.Tensor\<close> (with its \<^verbatim>\<open>dtype\<close> and \<^verbatim>\<open>shape\<close> attributes and,
  when the object has one, its \<^verbatim>\<open>_values\<close> array), \<^verbatim>\<open>gs.Variable\<close>, \<^verbatim>\<open>gs.Constant\<close>
  and any other class, of which only the name is read.
\<close>

datatype tensor =
    Tensor name "dtype option" "shape option" "ndarray option"
  | Variable name "dtype option" "shape option"
  | Constant name ndarray
  | OtherTensor name

text \<open>Python values held in attribute mappings and in the \<^verbatim>\<open>values\<close> field of a
  port record: \<^verbatim>\<open>None\<close>, numbers, strings, (nested) lists, numpy arrays and tensors.\<close>

datatype pyvalue =
    PNone
  | PNum rat
  | PStr string
  | PList "pyvalue list"
  | PArray ndarray
  | PTensor tensor

text \<open>A tensor object is a tensor with its identity (the address of the object).\<close>

type_synonym tensor_obj = "nat \<times> tensor"

text \<open>\<^verbatim>\<open>gs.Tensor\<close> is the abstract base class of graphsurgeon's tensors: its constructor
  raises, so no object has exactly this class. The tensors of a graph are instances of
  \<^verbatim>\<open>gs.Variable\<close>, of \<^verbatim>\<open>gs.Constant\<close> or of a class derived from them.\<close>

fun instantiable :: "tensor \<Rightarrow> bool" where
  "instantiable (Tensor _ _ _ _) = False"
| "instantiable (Variable _ _ _) = True"
| "instantiable (Constant _ _) = True"
| "instantiable (OtherTensor _) = True"

fun tensor_name :: "tensor \<Rightarrow> name" where
  "tensor_name (Tensor n _ _ _) = n"
| "tensor_name (Variable n _ _) = n"
| "tensor_name (Constant n _) = n"
| "tensor_name (OtherTensor n) = n"

definition str_of_dtype :: "dtype option \<Rightarrow> string" where
  "str_of_dtype d = (case d of None \<Rightarrow> ''None'' | Some s \<Rightarrow> s)"

definition shape_of_array :: "ndarray \<Rightarrow> shape" where
  "shape_of_array a = map (\<lambda>n. Dim (int n)) (arr_shape a)"

text \<open>\<^verbatim>\<open>ndarray.tolist()\<close>: a scalar for a 0-d array, otherwise a list with one entry
  per index of the first axis, each the \<^verbatim>\<open>tolist()\<close> of the sub-array.\<close>

fun chunks :: "nat \<Rightarrow> nat \<Rightarrow> 'a list \<Rightarrow> 'a list list" where
  "chunks 0 k xs = []"
| "chunks (Suc n) k xs = take k xs # chunks n k (drop k xs)"

fun tolist_shape :: "nat list \<Rightarrow> rat list \<Rightarrow> pyvalue" where
  "tolist_shape [] xs = (case xs of [] \<Rightarrow> PNone | x # _ \<Rightarrow> PNum x)"
| "tolist_shape (d # ds) xs = PList (map (tolist_shape ds) (chunks d (prod_list ds) xs))"

definition tolist :: "ndarray \<Rightarrow> pyvalue" where
  "tolist a = tolist_shape (arr_shape a) (arr_data a)"

text \<open>The contents of an array flattened to one list, as \<^verbatim>\<open>flatten().tolist()\<close> gives.\<close>

definition flat_list :: "ndarray \<Rightarrow> pyvalue" where
  "flat_list a = PList (map PNum (arr_data a))"

text \<open>An operator record \<^verbatim>\<open>gs.Node\<close> and a graph \<^verbatim>\<open>gs.Graph\<close>. Attribute mappings are
  ordered dictionaries: association lists in insertion order.\<close>

record gs_node =
  n_op :: string
  n_name :: name
  n_attrs :: "(string \<times> pyvalue) list"
  n_inputs :: "tensor_obj list"
  n_outputs :: "tensor_obj list"

record gs_graph =
  gs_nodes :: "gs_node list"
  gs_inputs :: "tensor_obj list"
  gs_outputs :: "tensor_obj list"
  gs_name :: string
  gs_opset :: int
  gs_doc_string :: string
  gs_import_domains :: string

text \<open>\<^verbatim>\<open>tensor.outputs\<close> and \<^verbatim>\<open>tensor.inputs\<close>: the nodes that read, respectively write,
  this very object, one entry per occurrence.\<close>

definition tensor_outputs :: "gs_graph \<Rightarrow> nat \<Rightarrow> name list" where
  "tensor_outputs G oid =
     concat (map (\<lambda>n. map (\<lambda>_. n_name n) (filter (\<lambda>t. fst t = oid) (n_inputs n))) (gs_nodes G))"

definition tensor_inputs :: "gs_graph \<Rightarrow> nat \<Rightarrow> name list" where
  "tensor_inputs G oid =
     concat (map (\<lambda>n. map (\<lambda>_. n_name n) (filter (\<lambda>t. fst t = oid) (n_outputs n))) (gs_nodes G))"

text \<open>\<^verbatim>\<open>t.shape\<close> and \<^verbatim>\<open>t.dtype\<close> as \<^verbatim>\<open>create_qtinput\<close> and \<^verbatim>\<open>create_qtoutput\<close> read them.\<close>

fun tensor_shape :: "tensor \<Rightarrow> error + shape option" where
  "tensor_shape (Tensor _ _ sh _) = Inr sh"
| "tensor_shape (Variable _ _ sh) = Inr sh"
| "tensor_shape (Constant _ a) = Inr (Some (shape_of_array a))"
| "tensor_shape (OtherTensor _) = Inl (AttributeError ''shape'')"

fun tensor_dtype :: "tensor \<Rightarrow> error + dtype option" where
  "tensor_dtype (Tensor _ d _ _) = Inr d"
| "tensor_dtype (Variable _ d _) = Inr d"
| "tensor_dtype (Constant _ a) = Inr (Some (arr_dtype a))"
| "tensor_dtype (OtherTensor _) = Inl (AttributeError ''dtype'')"


section \<open>The visual graph\<close>

text \<open>The port record \<^verbatim>\<open>OnnxNodeIO(name, dtype, shape, values)\<close>.\<close>

datatype OnnxNodeIO =
  OnnxNodeIO (io_name: name) (io_dtype: "dtype option") (io_shape: "shape option")
    (io_values: pyvalue)

datatype node_type = ONNXInput | ONNXOutput | ONNXNode

text \<open>A vertex of the node graph. Each port is represented by its locked flag, so the
  length of \<open>input_ports\<close> is the number of input ports.\<close>

record qt_node =
  node_type :: node_type
  qt_name :: name
  node_name :: name
  op :: string
  attrs :: "(string \<times> pyvalue) list"
  onnx_inputs :: "OnnxNodeIO list"
  onnx_outputs :: "OnnxNodeIO list"
  io_shape_of :: "shape option"
  io_dtype_of :: "dtype option"
  peer_names :: "name list"
  input_ports :: "bool list"
  output_ports :: "bool list"
  port_deletion_allowed :: bool
  node_pos :: "rat \<times> rat"

datatype port_ref = InPort nat nat | OutPort nat nat

text \<open>The calls that reach the port, pipe and undo machinery, in the order made.\<close>

datatype event =
    NodeCreated nat
  | Connected "nat \<times> nat" "nat \<times> nat"
  | PortLocked port_ref
  | BeginUndo string
  | EndUndo
  | PropertySet nat "rat \<times> rat" bool

text \<open>The graph: its vertices in insertion order (a vertex is referred to by its
  position), the pipes from an output port \<open>(vertex, index)\<close> to an input port, the
  metadata fields of \<^verbatim>\<open>ONNXNodeGraph\<close> and the log of calls.\<close>

record node_graph =
  nodes :: "qt_node list"
  pipes :: "((nat \<times> nat) \<times> (nat \<times> nat)) list"
  calls :: "event list"
  graph_name :: string
  opset :: int
  doc_string :: string
  import_domains :: string
  producer_name :: string
  producer_version :: string
  ir_version :: int
  model_version :: int

text \<open>Modelled from the spec: the vertex classes of \<^verbatim>\<open>onnx_node.py\<close>, which is not among
  the source files. An Input vertex has a single output port, an Output vertex a single
  input port, and an Operator vertex is created with a single input port and a single
  output port; all fields start empty and all ports unlocked. The setters of these
  classes (\<^verbatim>\<open>set_node_name\<close>, \<^verbatim>\<open>set_op\<close>, \<^verbatim>\<open>set_attrs\<close>, \<^verbatim>\<open>set_onnx_inputs\<close>, \<^verbatim>\<open>set_shape\<close>
  and the others) store their argument in the field, and the getters read it.\<close>

definition new_node :: "node_type \<Rightarrow> name \<Rightarrow> qt_node" where
  "new_node ty nm =
     \<lparr> node_type = ty, qt_name = nm, node_name = [], op = [], attrs = [],
       onnx_inputs = [], onnx_outputs = [], io_shape_of = None, io_dtype_of = None,
       peer_names = [],
       input_ports = (if ty = ONNXInput then [] else [False]),
       output_ports = (if ty = ONNXOutput then [] else [False]),
       port_deletion_allowed = False, node_pos = (0, 0) \<rparr>"

text \<open>\<^verbatim>\<open>NodeGraph.create_node\<close>: the new vertex gets the name the graph makes unique
  (\<open>uniq\<close> stands for \<^verbatim>\<open>get_unique_name\<close>, given the names in use) and is appended.\<close>

definition create_node ::
  "(name list \<Rightarrow> name \<Rightarrow> name) \<Rightarrow> node_type \<Rightarrow> name \<Rightarrow> node_graph \<Rightarrow> nat \<times> node_graph" where
  "create_node uniq ty nm g =
     (let i = length (nodes g);
          n = new_node ty (uniq (map qt_name (nodes g)) nm)
      in (i, g\<lparr> nodes := nodes g @ [n], calls := calls g @ [NodeCreated i] \<rparr>))"

definition update_node :: "nat \<Rightarrow> (qt_node \<Rightarrow> qt_node) \<Rightarrow> node_graph \<Rightarrow> node_graph" where
  "update_node i f g = g\<lparr> nodes := (nodes g)[i := f (nodes g ! i)] \<rparr>"

fun map_result :: "('a \<Rightarrow> error + 'b) \<Rightarrow> 'a list \<Rightarrow> error + 'b list" where
  "map_result f [] = Inr []"
| "map_result f (x # xs) =
     (case f x of
        Inl e \<Rightarrow> Inl e
      | Inr y \<Rightarrow> (case map_result f xs of Inl e \<Rightarrow> Inl e | Inr ys \<Rightarrow> Inr (y # ys)))"

fun fold_result :: "('a \<Rightarrow> 's \<Rightarrow> error + 's) \<Rightarrow> 'a list \<Rightarrow> 's \<Rightarrow> error + 's" where
  "fold_result f [] s = Inr s"
| "fold_result f (x # xs) s =
     (case f x s of Inl e \<Rightarrow> Inl e | Inr s' \<Rightarrow> fold_result f xs s')"


section \<open>Import: from the exchange format to the visual graph\<close>

text \<open>\<^verbatim>\<open>create_qtinput\<close> and \<^verbatim>\<open>create_qtoutput\<close>.\<close>

definition create_qtinput ::
  "(name list \<Rightarrow> name \<Rightarrow> name) \<Rightarrow> gs_graph \<Rightarrow> tensor_obj \<Rightarrow> node_graph \<Rightarrow> error + (nat \<times> node_graph)" where
  "create_qtinput uniq G inp g =
     (let nm = tensor_name (snd inp);
          (i, g1) = create_node uniq ONNXInput nm g
      in case tensor_shape (snd inp) of
           Inl e \<Rightarrow> Inl e
         | Inr sh \<Rightarrow>
             (case tensor_dtype (snd inp) of
                Inl e \<Rightarrow> Inl e
              | Inr dt \<Rightarrow>
                  Inr (i, update_node i
                     (\<lambda>n. n\<lparr> node_name := nm, io_shape_of := sh, io_dtype_of := dt,
                             peer_names := tensor_outputs G (fst inp) \<rparr>) g1)))"

definition create_qtoutput ::
  "(name list \<Rightarrow> name \<Rightarrow> name) \<Rightarrow> gs_graph \<Rightarrow> tensor_obj \<Rightarrow> node_graph \<Rightarrow> error + (nat \<times> node_graph)" where
  "create_qtoutput uniq G out g =
     (let nm = tensor_name (snd out);
          (i, g1) = create_node uniq ONNXOutput nm g
      in case tensor_shape (snd out) of
           Inl e \<Rightarrow> Inl e
         | Inr sh \<Rightarrow>
             (case tensor_dtype (snd out) of
                Inl e \<Rightarrow> Inl e
              | Inr dt \<Rightarrow>
                  Inr (i, update_node i
                     (\<lambda>n. n\<lparr> node_name := nm, io_shape_of := sh, io_dtype_of := dt,
                             peer_names := tensor_inputs G (fst out) \<rparr>) g1)))"

text \<open>The classification of one tensor reference in \<^verbatim>\<open>create_qtnode\<close>: the body of the
  loop over \<^verbatim>\<open>onnx_node.inputs\<close> (lines 212 to 224) and the body of the loop over
  \<^verbatim>\<open>onnx_node.outputs\<close> (lines 226 to 238).\<close>

fun classify_input :: "tensor \<Rightarrow> error + OnnxNodeIO" where
  "classify_input (Tensor n d sh vs) = Inr (OnnxNodeIO n (Some (str_of_dtype d)) sh PNone)"
| "classify_input (Constant n a) =
     Inr (OnnxNodeIO n (Some (arr_dtype a)) (Some (shape_of_array a)) (tolist a))"
| "classify_input (Variable n d sh) =
     (case d of
        None \<Rightarrow> Inr (OnnxNodeIO n None None PNone)
      | Some s \<Rightarrow> Inr (OnnxNodeIO n (Some s) sh PNone))"
| "classify_input (OtherTensor n) = Inr (OnnxNodeIO n None None PNone)"

fun classify_output :: "tensor \<Rightarrow> error + OnnxNodeIO" where
  "classify_output (Tensor n d sh vs) =
     (case vs of
        None \<Rightarrow> Inl (AttributeError ''_values'')
      | Some a \<Rightarrow> Inr (OnnxNodeIO n (Some (arr_dtype a)) sh PNone))"
| "classify_output (Constant n a) =
     Inr (OnnxNodeIO n (Some (arr_dtype a)) (Some (shape_of_array a)) (tolist a))"
| "classify_output (Variable n d sh) =
     (case d of
        None \<Rightarrow> Inr (OnnxNodeIO n None None PNone)
      | Some s \<Rightarrow> Inr (OnnxNodeIO n (Some s) sh PNone))"
| "classify_output (OtherTensor n) = Inr (OnnxNodeIO n None None PNone)"

text \<open>The attributes \<^verbatim>\<open>create_qtnode\<close> stores (lines 245 to 252). For the operator
  \<^verbatim>\<open>Constant\<close> it reads \<^verbatim>\<open>attrs["value"].values\<close>, which needs the key and a
  \<^verbatim>\<open>gs.Constant\<close> under it; otherwise the attributes are deep-copied.\<close>

definition import_attrs :: "string \<Rightarrow> (string \<times> pyvalue) list \<Rightarrow> error + (string \<times> pyvalue) list" where
  "import_attrs opname ats =
     (if opname \<in> set [''Constant''] then
        (case map_of ats ''value'' of
           None \<Rightarrow> Inl (KeyError ''value'')
         | Some (PTensor (Constant _ a)) \<Rightarrow>
             Inr [(''dtype'', PStr (arr_dtype a)), (''values'', tolist a)]
         | Some _ \<Rightarrow> Inl (AttributeError ''values''))
      else Inr ats)"

text \<open>\<^verbatim>\<open>BaseNode.delete_input(index)\<close> of NodeGraphQt: nothing happens when the vertex has
  no such port; deleting needs the deletion permission and an unlocked port.\<close>

definition delete_input :: "nat \<Rightarrow> qt_node \<Rightarrow> error + qt_node" where
  "delete_input i n =
     (if i < length (input_ports n) then
        (if \<not> port_deletion_allowed n then Inl PortError
         else if input_ports n ! i then Inl PortError
         else Inr (n\<lparr> input_ports := take i (input_ports n) @ drop (Suc i) (input_ports n) \<rparr>))
      else Inr n)"

text \<open>\<^verbatim>\<open>create_qtnode\<close> on the vertex just created (lines 211 to 259).\<close>

definition fill_qtnode :: "gs_node \<Rightarrow> qt_node \<Rightarrow> error + qt_node" where
  "fill_qtnode onnx_node n =
     (case map_result classify_input (map snd (n_inputs onnx_node)) of
        Inl e \<Rightarrow> Inl e
      | Inr ins \<Rightarrow>
     (case map_result classify_output (map snd (n_outputs onnx_node)) of
        Inl e \<Rightarrow> Inl e
      | Inr outs \<Rightarrow>
     (let n1 = n\<lparr> node_name := n_name onnx_node, op := n_op onnx_node \<rparr>;
          n2 = (if length ins > 0 then n1\<lparr> onnx_inputs := ins \<rparr> else n1);
          n3 = (if length outs > 0 then n2\<lparr> onnx_outputs := outs \<rparr> else n2)
      in case import_attrs (op n3) (n_attrs onnx_node) of
           Inl e \<Rightarrow> Inl e
         | Inr ats \<Rightarrow>
             (let n4 = n3\<lparr> attrs := ats \<rparr>
              in if op n4 \<in> set [''Constant''] then
                   (case delete_input 0 (n4\<lparr> port_deletion_allowed := True \<rparr>) of
                      Inl e \<Rightarrow> Inl e
                    | Inr n5 \<Rightarrow> Inr (n5\<lparr> port_deletion_allowed := False \<rparr>))
                 else Inr n4))))"

definition create_qtnode ::
  "(name list \<Rightarrow> name \<Rightarrow> name) \<Rightarrow> gs_node \<Rightarrow> node_graph \<Rightarrow> error + (nat \<times> node_graph)" where
  "create_qtnode uniq onnx_node g =
     (let (i, g1) = create_node uniq ONNXNode (n_name onnx_node) g
      in case fill_qtnode onnx_node (nodes g1 ! i) of
           Inl e \<Rightarrow> Inl e
         | Inr n \<Rightarrow> Inr (i, update_node i (\<lambda>_. n) g1))"

text \<open>Python dictionaries are association lists in insertion order; \<^verbatim>\<open>d[k]\<close> raises
  \<^verbatim>\<open>KeyError\<close> on a missing key and \<^verbatim>\<open>d[k] = v\<close> keeps the position of a key already
  there.\<close>

definition lookup :: "(name \<times> 'v) list \<Rightarrow> name \<Rightarrow> error + 'v" where
  "lookup d k = (case map_of d k of None \<Rightarrow> Inl (KeyError k) | Some v \<Rightarrow> Inr v)"

text \<open>The index \<^verbatim>\<open>qt_edge\<close> from a tensor name to the operators reading it
  (\<^verbatim>\<open>"inputs"\<close>) and writing it (\<^verbatim>\<open>"outputs"\<close>), lines 524 to 540.\<close>

type_synonym edge_index = "(name \<times> name list \<times> name list) list"

definition note_input :: "name \<Rightarrow> name \<Rightarrow> edge_index \<Rightarrow> edge_index" where
  "note_input key nd qt_edge =
     (case map_of qt_edge key of
        None \<Rightarrow> qt_edge @ [(key, [nd], [])]
      | Some (ins, outs) \<Rightarrow> AList.update key (ins @ [nd], outs) qt_edge)"

definition note_output :: "name \<Rightarrow> name \<Rightarrow> edge_index \<Rightarrow> edge_index" where
  "note_output key nd qt_edge =
     (case map_of qt_edge key of
        None \<Rightarrow> qt_edge @ [(key, [], [nd])]
      | Some (ins, outs) \<Rightarrow> AList.update key (ins, outs @ [nd]) qt_edge)"

definition index_node :: "gs_node \<Rightarrow> edge_index \<Rightarrow> edge_index" where
  "index_node onnx_node qt_edge =
     fold (\<lambda>t. note_output (tensor_name (snd t)) (n_name onnx_node)) (n_outputs onnx_node)
       (fold (\<lambda>t. note_input (tensor_name (snd t)) (n_name onnx_node)) (n_inputs onnx_node)
          qt_edge)"

text \<open>\<^verbatim>\<open>node.output(i)\<close> and \<^verbatim>\<open>node.input(i)\<close> index the port lists.\<close>

definition output_port :: "node_graph \<Rightarrow> nat \<Rightarrow> nat \<Rightarrow> error + (nat \<times> nat)" where
  "output_port g n i =
     (if n < length (nodes g) \<and> i < length (output_ports (nodes g ! n)) then Inr (n, i)
      else Inl IndexError)"

definition input_port :: "node_graph \<Rightarrow> nat \<Rightarrow> nat \<Rightarrow> error + (nat \<times> nat)" where
  "input_port g n i =
     (if n < length (nodes g) \<and> i < length (input_ports (nodes g ! n)) then Inr (n, i)
      else Inl IndexError)"

text \<open>\<^verbatim>\<open>Port.connect_to\<close> of NodeGraphQt, for the multi-connection ports of these
  vertices: nothing changes when the two ports are already connected, a locked port on
  either end is refused, otherwise the pipe is added. Every call that returns is logged.\<close>

definition connect_to :: "nat \<times> nat \<Rightarrow> nat \<times> nat \<Rightarrow> node_graph \<Rightarrow> error + node_graph" where
  "connect_to src dst g =
     (if (src, dst) \<in> set (pipes g) then Inr (g\<lparr> calls := calls g @ [Connected src dst] \<rparr>)
      else if output_ports (nodes g ! fst src) ! snd src \<or> input_ports (nodes g ! fst dst) ! snd dst
        then Inl PortError
      else Inr (g\<lparr> pipes := pipes g @ [(src, dst)], calls := calls g @ [Connected src dst] \<rparr>))"

text \<open>One statement pair \<^verbatim>\<open>src_port = A[src].output(0); src_port.connect_to(B[dst].input(0))\<close>.\<close>

definition connect_names ::
  "(name \<times> nat) list \<Rightarrow> name \<Rightarrow> (name \<times> nat) list \<Rightarrow> name \<Rightarrow> node_graph \<Rightarrow> error + node_graph" where
  "connect_names src_nodes src dst_nodes dst g =
     (case lookup src_nodes src of
        Inl e \<Rightarrow> Inl e
      | Inr s \<Rightarrow>
     (case output_port g s 0 of
        Inl e \<Rightarrow> Inl e
      | Inr sp \<Rightarrow>
     (case lookup dst_nodes dst of
        Inl e \<Rightarrow> Inl e
      | Inr d \<Rightarrow>
     (case input_port g d 0 of
        Inl e \<Rightarrow> Inl e
      | Inr dp \<Rightarrow> connect_to sp dp g))))"

text \<open>The body of the loop over \<^verbatim>\<open>qt_edge.items()\<close>, lines 545 to 562.\<close>

definition connect_key ::
  "(name \<times> nat) list \<Rightarrow> (name \<times> nat) list \<Rightarrow> name list \<Rightarrow> name list \<Rightarrow>
     name \<times> name list \<times> name list \<Rightarrow> node_graph \<Rightarrow> error + node_graph" where
  "connect_key qt_io_nodes qt_nodes input_names output_names kv g =
     (let key = fst kv; node_inputs = fst (snd kv); node_outputs = snd (snd kv)
      in case (if key \<in> set input_names
               then fold_result (\<lambda>inp. connect_names qt_io_nodes key qt_nodes inp) node_inputs g
               else Inr g) of
           Inl e \<Rightarrow> Inl e
         | Inr g1 \<Rightarrow>
        (case (if key \<in> set output_names
               then fold_result (\<lambda>out. connect_names qt_nodes out qt_io_nodes key) node_outputs g1
               else Inr g1) of
           Inl e \<Rightarrow> Inl e
         | Inr g2 \<Rightarrow>
             fold_result
               (\<lambda>inp. fold_result (\<lambda>out. connect_names qt_nodes out qt_nodes inp) node_outputs)
               node_inputs g2))"

text \<open>\<^verbatim>\<open>Port.set_locked(state=True, connected_ports=True)\<close>: the port is locked, then
  every port connected to it.\<close>

definition lock_port :: "port_ref \<Rightarrow> node_graph \<Rightarrow> node_graph" where
  "lock_port p g =
     (case p of
        InPort n i \<Rightarrow>
          (update_node n (\<lambda>v. v\<lparr> input_ports := (input_ports v)[i := True] \<rparr>) g)
            \<lparr> calls := calls g @ [PortLocked p] \<rparr>
      | OutPort n i \<Rightarrow>
          (update_node n (\<lambda>v. v\<lparr> output_ports := (output_ports v)[i := True] \<rparr>) g)
            \<lparr> calls := calls g @ [PortLocked p] \<rparr>)"

definition connected_ports :: "node_graph \<Rightarrow> port_ref \<Rightarrow> port_ref list" where
  "connected_ports g p =
     (case p of
        InPort n i \<Rightarrow>
          map (\<lambda>c. OutPort (fst (fst c)) (snd (fst c))) (filter (\<lambda>c. snd c = (n, i)) (pipes g))
      | OutPort n i \<Rightarrow>
          map (\<lambda>c. InPort (fst (snd c)) (snd (snd c))) (filter (\<lambda>c. fst c = (n, i)) (pipes g)))"

definition set_locked :: "port_ref \<Rightarrow> node_graph \<Rightarrow> node_graph" where
  "set_locked p g = fold lock_port (connected_ports g p) (lock_port p g)"

text \<open>The body of the loop over \<^verbatim>\<open>node_graph.all_nodes()\<close>, lines 564 to 568.\<close>

definition lock_node :: "nat \<Rightarrow> node_graph \<Rightarrow> node_graph" where
  "lock_node n g =
     (let g1 = fold (\<lambda>i. set_locked (InPort n i)) [0 ..< length (input_ports (nodes g ! n))] g
      in fold (\<lambda>i. set_locked (OutPort n i)) [0 ..< length (output_ports (nodes g1 ! n))] g1)"

definition lock_all :: "node_graph \<Rightarrow> node_graph" where
  "lock_all g = fold lock_node [0 ..< length (nodes g)] g"

text \<open>\<^verbatim>\<open>ONNXtoNodeGraph\<close>. An exception ends the import; the vertices created so far
  are not part of the result.\<close>

definition add_io ::
  "(tensor_obj \<Rightarrow> node_graph \<Rightarrow> error + (nat \<times> node_graph)) \<Rightarrow> tensor_obj \<Rightarrow>
     (name \<times> nat) list \<times> node_graph \<Rightarrow> error + ((name \<times> nat) list \<times> node_graph)" where
  "add_io mk t s =
     (case mk t (snd s) of
        Inl e \<Rightarrow> Inl e
      | Inr r \<Rightarrow> Inr (AList.update (tensor_name (snd t)) (fst r) (fst s), snd r))"

definition add_qtnode ::
  "(name list \<Rightarrow> name \<Rightarrow> name) \<Rightarrow> gs_node \<Rightarrow>
     (name \<times> nat) list \<times> node_graph \<Rightarrow> error + ((name \<times> nat) list \<times> node_graph)" where
  "add_qtnode uniq onnx_node s =
     (case create_qtnode uniq onnx_node (snd s) of
        Inl e \<Rightarrow> Inl e
      | Inr r \<Rightarrow> Inr (AList.update (n_name onnx_node) (fst r) (fst s), snd r))"

definition wire_nodes ::
  "gs_graph \<Rightarrow> (name \<times> nat) list \<Rightarrow> (name \<times> nat) list \<Rightarrow> node_graph \<Rightarrow> error + node_graph" where
  "wire_nodes onnx_graph qt_io_nodes qt_nodes g =
     (let qt_edge = fold index_node (gs_nodes onnx_graph) [];
          input_names = map (\<lambda>t. tensor_name (snd t)) (gs_inputs onnx_graph);
          output_names = map (\<lambda>t. tensor_name (snd t)) (gs_outputs onnx_graph)
      in fold_result (connect_key qt_io_nodes qt_nodes input_names output_names) qt_edge g)"

text \<open>Lines 505 to 562 of \<^verbatim>\<open>ONNXtoNodeGraph\<close>: the vertices are created and connected.\<close>

definition create_and_connect ::
  "(name list \<Rightarrow> name \<Rightarrow> name) \<Rightarrow> gs_graph \<Rightarrow> node_graph \<Rightarrow> error + node_graph" where
  "create_and_connect uniq onnx_graph node_graph =
     (case fold_result (add_io (create_qtinput uniq onnx_graph)) (gs_inputs onnx_graph)
             ([], node_graph) of
        Inl e \<Rightarrow> Inl e
      | Inr s1 \<Rightarrow>
     (case fold_result (add_io (create_qtoutput uniq onnx_graph)) (gs_outputs onnx_graph) s1 of
        Inl e \<Rightarrow> Inl e
      | Inr s2 \<Rightarrow>
     (case fold_result (add_qtnode uniq) (gs_nodes onnx_graph) ([], snd s2) of
        Inl e \<Rightarrow> Inl e
      | Inr s3 \<Rightarrow> wire_nodes onnx_graph (fst s2) (fst s3) (snd s3))))"

text \<open>The whole of \<^verbatim>\<open>ONNXtoNodeGraph\<close>: lines 505 to 562, then the locking loop of lines
  564 to 568.\<close>

definition ONNXtoNodeGraph ::
  "(name list \<Rightarrow> name \<Rightarrow> name) \<Rightarrow> gs_graph \<Rightarrow> node_graph \<Rightarrow> error + node_graph" where
  "ONNXtoNodeGraph uniq onnx_graph node_graph =
     (case create_and_connect uniq onnx_graph node_graph of
        Inl e \<Rightarrow> Inl e
      | Inr g4 \<Rightarrow> Inr (lock_all g4))"


section \<open>Lookup by name\<close>

text \<open>\<^verbatim>\<open>get_node_by_name\<close>, lines 139 to 155: the result lists vertices by position.\<close>

definition matches_of :: "name \<Rightarrow> nat \<times> qt_node \<Rightarrow> nat list" where
  "matches_of nm p =
     (if node_type (snd p) = ONNXNode \<and> node_name (snd p) = nm then [fst p] else [])
     @ (if qt_name (snd p) = nm then [fst p] else [])"

definition get_node_by_name :: "node_graph \<Rightarrow> name \<Rightarrow> nat list" where
  "get_node_by_name g nm = concat (map (matches_of nm) (enumerate 0 (nodes g)))"


section \<open>Layout\<close>

text \<open>\<^verbatim>\<open>list.index\<close>: the first position of a value, \<^verbatim>\<open>ValueError\<close> when there is none.\<close>

fun index_of :: "'a \<Rightarrow> 'a list \<Rightarrow> error + nat" where
  "index_of x [] = Inl ValueError"
| "index_of x (y # ys) =
     (if x = y then Inr 0
      else case index_of x ys of Inl e \<Rightarrow> Inl e | Inr i \<Rightarrow> Inr (Suc i))"

text \<open>\<^verbatim>\<open>connected_input_nodes().values()\<close>: for each input port of the vertex, the vertices
  whose output ports are piped into it.\<close>

definition connected_input_nodes :: "node_graph \<Rightarrow> nat \<Rightarrow> nat list list" where
  "connected_input_nodes g n =
     map (\<lambda>i. map (\<lambda>c. fst (fst c)) (filter (\<lambda>c. snd c = (n, i)) (pipes g)))
       [0 ..< length (input_ports (nodes g ! n))]"

text \<open>\<^verbatim>\<open>NodeGraphToEdges\<close>, lines 336 to 352. \<open>order\<close> is \<^verbatim>\<open>all_nodes()[::-1]\<close> when
  \<open>reverse\<close> holds and \<^verbatim>\<open>all_nodes()\<close> otherwise.\<close>

definition edges_of_node ::
  "node_graph \<Rightarrow> bool \<Rightarrow> name list \<Rightarrow> nat \<times> nat \<Rightarrow> error + (nat \<times> nat) list" where
  "edges_of_node g reverse node_names p =
     map_result
       (\<lambda>inp. case index_of (qt_name (nodes g ! inp)) node_names of
                 Inl e \<Rightarrow> Inl e
               | Inr input_index \<Rightarrow>
                   Inr (if reverse then (fst p, input_index) else (input_index, fst p)))
       (concat (connected_input_nodes g (snd p)))"

definition NodeGraphToEdges :: "node_graph \<Rightarrow> bool \<Rightarrow> error + (nat \<times> nat) list" where
  "NodeGraphToEdges g reverse =
     (let order = (if reverse then rev [0 ..< length (nodes g)] else [0 ..< length (nodes g)]);
          node_names = map (\<lambda>n. qt_name (nodes g ! n)) order
      in case map_result (edges_of_node g reverse node_names) (enumerate 0 order) of
           Inl e \<Rightarrow> Inl e
         | Inr ess \<Rightarrow> Inr (concat ess))"

text \<open>\<^verbatim>\<open>node.set_property('pos', [x, y], push_undo)\<close>.\<close>

definition set_pos :: "nat \<Rightarrow> rat \<times> rat \<Rightarrow> bool \<Rightarrow> node_graph \<Rightarrow> node_graph" where
  "set_pos n xy push_undo g =
     (update_node n (\<lambda>v. v\<lparr> node_pos := xy \<rparr>) g)\<lparr> calls := calls g @ [PropertySet n xy push_undo] \<rparr>"

text \<open>A loop whose body can raise: the result is the exception, if any, and the state
  reached when it was raised.\<close>

fun fold_until :: "('a \<Rightarrow> 's \<Rightarrow> error + 's) \<Rightarrow> 'a list \<Rightarrow> 's \<Rightarrow> error option \<times> 's" where
  "fold_until f [] s = (None, s)"
| "fold_until f (x # xs) s =
     (case f x s of Inl e \<Rightarrow> (Some e, s) | Inr s' \<Rightarrow> fold_until f xs s')"

text \<open>\<^verbatim>\<open>auto_layout_nodes\<close>, lines 487 to 501. \<open>layout\<close> stands for igraph's
  \<^verbatim>\<open>layout_sugiyama\<close> and returns the coordinate list \<^verbatim>\<open>layout.coords\<close>. The result is
  the exception that left the function, if any, and the graph at that moment.\<close>

definition place_node ::
  "(rat \<times> rat) list \<Rightarrow> bool \<Rightarrow> nat \<times> nat \<Rightarrow> node_graph \<Rightarrow> error + node_graph" where
  "place_node coords push_undo p g =
     (if fst p < length coords then
        Inr (set_pos (snd p) (- fst (coords ! fst p) * 240, - snd (coords ! fst p) * 120) push_undo g)
      else Inl IndexError)"

definition auto_layout_nodes ::
  "((nat \<times> nat) list \<Rightarrow> (rat \<times> rat) list) \<Rightarrow> node_graph \<Rightarrow> bool \<Rightarrow> error option \<times> node_graph" where
  "auto_layout_nodes layout g push_undo =
     (let g1 = (if push_undo then g\<lparr> calls := calls g @ [BeginUndo ''Auto Layout Nodes''] \<rparr> else g)
      in case NodeGraphToEdges g1 True of
           Inl e \<Rightarrow> (Some e, g1)
         | Inr edges \<Rightarrow>
             if length edges = 0 then (None, g1)
             else
               (case fold_until (place_node (layout edges) push_undo)
                       (enumerate 0 (rev [0 ..< length (nodes g1)])) g1 of
                  (Some e, g2) \<Rightarrow> (Some e, g2)
                | (None, g2) \<Rightarrow>
                    (None, if push_undo then g2\<lparr> calls := calls g2 @ [EndUndo] \<rparr> else g2)))"

text \<open>Whether the log brackets its undo groups: every \<^verbatim>\<open>begin_undo\<close> is followed by an
  \<^verbatim>\<open>end_undo\<close>, and no group is opened inside another or closed when none is open.\<close>

fun bracketed :: "bool \<Rightarrow> event list \<Rightarrow> bool" where
  "bracketed opened [] = (\<not> opened)"
| "bracketed opened (BeginUndo l # es) = (\<not> opened \<and> bracketed True es)"
| "bracketed opened (EndUndo # es) = (opened \<and> bracketed False es)"
| "bracketed opened (e # es) = bracketed opened es"


section \<open>Export: from the visual graph to the exchange format\<close>

text \<open>The library functions the export calls, as parameters:
  \<open>np_dtype\<close> is \<^verbatim>\<open>np.dtype(x)\<close> (the canonical name of the dtype a value denotes),
  \<open>np_array_reshape\<close> is \<^verbatim>\<open>np.array(val, dtype=dtype).reshape(shape)\<close>, and
  \<open>make_tensor\<close> is the array held by \<^verbatim>\<open>onnx.helper.make_tensor(name, data_type, dims, vals)\<close>.\<close>

record libs =
  np_dtype :: "pyvalue \<Rightarrow> error + dtype"
  np_array_reshape :: "pyvalue \<Rightarrow> dtype \<Rightarrow> shape option \<Rightarrow> error + ndarray"
  make_tensor :: "dtype \<Rightarrow> nat list \<Rightarrow> pyvalue \<Rightarrow> error + ndarray"

text \<open>The state of one export pass: the dictionary \<^verbatim>\<open>gs_variables_all\<close>, the address
  the next new object gets, and a record of every object the resolution of a port
  record has appended to \<^verbatim>\<open>input_gs_variables\<close> or \<^verbatim>\<open>output_gs_variables\<close>.\<close>

record export_state =
  gs_variables_all :: "(name \<times> tensor_obj) list"
  next_id :: nat
  resolved :: "tensor_obj list"

definition new_object :: "tensor \<Rightarrow> export_state \<Rightarrow> tensor_obj \<times> export_state" where
  "new_object t st = ((next_id st, t), st\<lparr> next_id := Suc (next_id st) \<rparr>)"

text \<open>The bodies of the loops over the Input and the Output vertices, lines 362 to 372.\<close>

definition declare_io ::
  "qt_node \<Rightarrow> tensor_obj list \<times> export_state \<Rightarrow> tensor_obj list \<times> export_state" where
  "declare_io n s =
     (let (v, st) = new_object (Variable (qt_name n) (io_dtype_of n) (io_shape_of n)) (snd s)
      in (fst s @ [v],
          st\<lparr> gs_variables_all := AList.update (qt_name n) v (gs_variables_all st) \<rparr>))"

text \<open>The test \<^verbatim>\<open>val == -1 or val is None\<close>. On a numpy array the comparison is
  elementwise and its truth value exists only for a single element.\<close>

fun is_sentinel :: "pyvalue \<Rightarrow> error + bool" where
  "is_sentinel PNone = Inr True"
| "is_sentinel (PNum r) = Inr (r = - 1)"
| "is_sentinel (PArray a) = (case arr_data a of [x] \<Rightarrow> Inr (x = - 1) | _ \<Rightarrow> Inl ValueError)"
| "is_sentinel _ = Inr False"

text \<open>The resolution of one port record, lines 380 to 392 and again 395 to 407.\<close>

definition store_new :: "name \<Rightarrow> tensor \<Rightarrow> export_state \<Rightarrow> tensor_obj \<times> export_state" where
  "store_new nm t st =
     (let (v, st1) = new_object t st
      in (v, st1\<lparr> gs_variables_all := AList.update nm v (gs_variables_all st1),
                  resolved := resolved st1 @ [v] \<rparr>))"

definition resolve :: "libs \<Rightarrow> OnnxNodeIO \<Rightarrow> export_state \<Rightarrow> error + (tensor_obj \<times> export_state)" where
  "resolve L io st =
     (case map_of (gs_variables_all st) (io_name io) of
        Some v \<Rightarrow> Inr (v, st\<lparr> resolved := resolved st @ [v] \<rparr>)
      | None \<Rightarrow>
          (case io_dtype io of
             None \<Rightarrow> Inr (store_new (io_name io) (Variable (io_name io) None None) st)
           | Some d \<Rightarrow>
               (case is_sentinel (io_values io) of
                  Inl e \<Rightarrow> Inl e
                | Inr True \<Rightarrow>
                    Inr (store_new (io_name io) (Variable (io_name io) (Some d) (io_shape io)) st)
                | Inr False \<Rightarrow>
                    (case np_array_reshape L (io_values io) d (io_shape io) of
                       Inl e \<Rightarrow> Inl e
                     | Inr a \<Rightarrow> Inr (store_new (io_name io) (Constant (io_name io) a) st)))))"

fun resolve_all ::
  "libs \<Rightarrow> OnnxNodeIO list \<Rightarrow> export_state \<Rightarrow> error + (tensor_obj list \<times> export_state)" where
  "resolve_all L [] st = Inr ([], st)"
| "resolve_all L (io # ios) st =
     (case resolve L io st of
        Inl e \<Rightarrow> Inl e
      | Inr (v, st1) \<Rightarrow>
          (case resolve_all L ios st1 of
             Inl e \<Rightarrow> Inl e
           | Inr (vs, st2) \<Rightarrow> Inr (v # vs, st2)))"

text \<open>The table \<^verbatim>\<open>NUMPY_TYPES_TO_ONNX_DTYPES\<close> with the values of the four
  \<^verbatim>\<open>onnx.TensorProto\<close> constants.\<close>

definition NUMPY_TYPES_TO_ONNX_DTYPES :: "(dtype \<times> int) list" where
  "NUMPY_TYPES_TO_ONNX_DTYPES =
     [(''float32'', 1), (''float64'', 11), (''int32'', 6), (''int64'', 7)]"

text \<open>The operator record of a constant-producing vertex, lines 423 to 451 and 464 to
  472. The record is built by \<^verbatim>\<open>onnx.helper.make_node\<close> with \<^verbatim>\<open>inputs=[]\<close>, one output
  name and the attribute \<^verbatim>\<open>value\<close>, wrapped into a one-node model and read back by
  \<^verbatim>\<open>gs.import_onnx\<close>, which makes new objects for the output and the attribute tensor.\<close>

definition constant_node ::
  "libs \<Rightarrow> qt_node \<Rightarrow> tensor_obj list \<Rightarrow> export_state \<Rightarrow> error + (gs_node \<times> export_state)" where
  "constant_node L n output_gs_variables st =
     (case lookup (attrs n) ''dtype'' of
        Inl e \<Rightarrow> Inl e
      | Inr dv \<Rightarrow>
     (case np_dtype L dv of
        Inl e \<Rightarrow> Inl e
      | Inr d \<Rightarrow>
     (case lookup NUMPY_TYPES_TO_ONNX_DTYPES d of
        Inl e \<Rightarrow> Inl e
      | Inr code \<Rightarrow>
     (case lookup (attrs n) ''values'' of
        Inl e \<Rightarrow> Inl e
      | Inr av \<Rightarrow>
     (let dims = (case av of PList vs \<Rightarrow> [length vs] | PArray a \<Rightarrow> arr_shape a | _ \<Rightarrow> [1]);
          attr_values = (case av of PList vs \<Rightarrow> av | PArray a \<Rightarrow> av | _ \<Rightarrow> PList [av])
      in case output_gs_variables of
           [] \<Rightarrow> Inl IndexError
         | v # _ \<Rightarrow>
             (let constant_name = tensor_name (snd v)
              in case make_tensor L d dims attr_values of
                   Inl e \<Rightarrow> Inl e
                 | Inr a \<Rightarrow>
                     (let (out, st1) =
                            new_object (Variable constant_name (Some d)
                                          (Some (map (\<lambda>k. Dim (int k)) dims))) st
                      in Inr (\<lparr> n_op = op n, n_name = node_name n,
                                n_attrs = [(''value'', PTensor (Constant ''value'' a))],
                                n_inputs = [], n_outputs = [out] \<rparr>, st1))))))))"

text \<open>The body of the loop over the Operator vertices, lines 375 to 474.\<close>

definition export_node ::
  "libs \<Rightarrow> qt_node \<Rightarrow> gs_node list \<times> export_state \<Rightarrow> error + (gs_node list \<times> export_state)" where
  "export_node L n s =
     (case resolve_all L (onnx_inputs n) (snd s) of
        Inl e \<Rightarrow> Inl e
      | Inr (input_gs_variables, st1) \<Rightarrow>
     (case resolve_all L (onnx_outputs n) st1 of
        Inl e \<Rightarrow> Inl e
      | Inr (output_gs_variables, st2) \<Rightarrow>
          if op n \<notin> set [''Constant'', ''ConstantOfShape''] then
            Inr (fst s @ [\<lparr> n_op = op n, n_name = node_name n, n_attrs = attrs n,
                            n_inputs = input_gs_variables, n_outputs = output_gs_variables \<rparr>],
                 st2)
          else
            (case constant_node L n output_gs_variables st2 of
               Inl e \<Rightarrow> Inl e
             | Inr (nd, st3) \<Rightarrow> Inr (fst s @ [nd], st3))))"

definition get_nodes_by_type :: "node_graph \<Rightarrow> node_type \<Rightarrow> qt_node list" where
  "get_nodes_by_type g ty = filter (\<lambda>n. node_type n = ty) (nodes g)"

text \<open>The three loops of \<^verbatim>\<open>NodeGraphtoONNX\<close> and the graph it assembles.\<close>

definition export_pass ::
  "libs \<Rightarrow> node_graph \<Rightarrow>
     error + (tensor_obj list \<times> tensor_obj list \<times> gs_node list \<times> export_state)" where
  "export_pass L g =
     (let s1 = fold declare_io (get_nodes_by_type g ONNXInput)
                 ([], \<lparr> gs_variables_all = [], next_id = 0, resolved = [] \<rparr>);
          s2 = fold declare_io (get_nodes_by_type g ONNXOutput) ([], snd s1)
      in case fold_result (export_node L) (get_nodes_by_type g ONNXNode) ([], snd s2) of
           Inl e \<Rightarrow> Inl e
         | Inr s3 \<Rightarrow> Inr (fst s1, fst s2, fst s3, snd s3))"

definition NodeGraphtoONNX :: "libs \<Rightarrow> node_graph \<Rightarrow> error + gs_graph" where
  "NodeGraphtoONNX L g =
     (case export_pass L g of
        Inl e \<Rightarrow> Inl e
      | Inr (input_variables, output_variables, ns, st) \<Rightarrow>
          Inr \<lparr> gs_nodes = ns, gs_inputs = input_variables, gs_outputs = output_variables,
                gs_name = graph_name g, gs_opset = opset g, gs_doc_string = doc_string g,
                gs_import_domains = import_domains g \<rparr>)"

text \<open>\<^verbatim>\<open>to_onnx\<close>, lines 267 to 283. \<open>export_onnx\<close> stands for \<^verbatim>\<open>gs.export_onnx\<close> and
  \<open>check_model\<close> for \<^verbatim>\<open>onnx.checker.check_model\<close>, which returns the exception it
  raises, if any. The translation runs before the \<^verbatim>\<open>try\<close>, so its exception leaves
  \<^verbatim>\<open>to_onnx\<close>; the result \<open>None\<close> is Python's \<^verbatim>\<open>None\<close>.\<close>

record model_proto =
  mp_graph :: gs_graph
  mp_producer_name :: string
  mp_producer_version :: string
  mp_ir_version :: int
  mp_model_version :: int

definition stamp :: "node_graph \<Rightarrow> model_proto \<Rightarrow> model_proto" where
  "stamp g m =
     m\<lparr> mp_producer_name := producer_name g, mp_producer_version := producer_version g,
        mp_ir_version := ir_version g, mp_model_version := model_version g \<rparr>"

definition to_onnx ::
  "libs \<Rightarrow> (gs_graph \<Rightarrow> error + model_proto) \<Rightarrow> (model_proto \<Rightarrow> error option) \<Rightarrow>
     node_graph \<Rightarrow> error + model_proto option" where
  "to_onnx L export_onnx check_model g =
     (case NodeGraphtoONNX L g of
        Inl e \<Rightarrow> Inl e
      | Inr graph \<Rightarrow>
          Inr (case export_onnx graph of
                 Inl e \<Rightarrow> None
               | Inr m \<Rightarrow>
                   (case check_model (stamp g m) of
                      Some e \<Rightarrow> Some (stamp g m)
                    | None \<Rightarrow> Some (stamp g m))))"


section \<open>Concrete libraries and graphs for evaluation\<close>

text \<open>A small model of the library calls, used where a statement is evaluated on a
  concrete graph: arrays are built from numbers and (nested) lists of numbers, a shape
  must list non-negative integer dimensions whose product is the number of elements, and
  the four dtypes of the table are the known ones.\<close>

fun flatten_py :: "pyvalue \<Rightarrow> error + rat list"
  and flatten_pys :: "pyvalue list \<Rightarrow> error + rat list" where
  "flatten_py (PNum r) = Inr [r]"
| "flatten_py (PList vs) = flatten_pys vs"
| "flatten_py (PArray a) = Inr (arr_data a)"
| "flatten_py PNone = Inl TypeError"
| "flatten_py (PStr _) = Inl TypeError"
| "flatten_py (PTensor _) = Inl TypeError"
| "flatten_pys [] = Inr []"
| "flatten_pys (v # vs) =
     (case flatten_py v of
        Inl e \<Rightarrow> Inl e
      | Inr xs \<Rightarrow> (case flatten_pys vs of Inl e \<Rightarrow> Inl e | Inr ys \<Rightarrow> Inr (xs @ ys)))"

fun concrete_dims :: "shape \<Rightarrow> error + nat list" where
  "concrete_dims [] = Inr []"
| "concrete_dims (Dim k # ds) =
     (if k < 0 then Inl ValueError
      else case concrete_dims ds of Inl e \<Rightarrow> Inl e | Inr ns \<Rightarrow> Inr (nat k # ns))"
| "concrete_dims (SymDim _ # ds) = Inl TypeError"

definition example_array_reshape :: "pyvalue \<Rightarrow> dtype \<Rightarrow> shape option \<Rightarrow> error + ndarray" where
  "example_array_reshape v d sh =
     (case flatten_py v of
        Inl e \<Rightarrow> Inl e
      | Inr xs \<Rightarrow>
          (case sh of
             None \<Rightarrow> Inl TypeError
           | Some ds \<Rightarrow>
               (case concrete_dims ds of
                  Inl e \<Rightarrow> Inl e
                | Inr ns \<Rightarrow>
                    if prod_list ns = length xs then Inr (NDArray d ns xs) else Inl ValueError)))"

definition example_dtype :: "pyvalue \<Rightarrow> error + dtype" where
  "example_dtype v =
     (case v of
        PStr s \<Rightarrow> (if s \<in> set (map fst NUMPY_TYPES_TO_ONNX_DTYPES) then Inr s else Inl TypeError)
      | _ \<Rightarrow> Inl TypeError)"

definition example_make_tensor :: "dtype \<Rightarrow> nat list \<Rightarrow> pyvalue \<Rightarrow> error + ndarray" where
  "example_make_tensor d dims v =
     (case v of
        PList vs \<Rightarrow>
          (case map_result (\<lambda>x. case x of PNum r \<Rightarrow> Inr r | _ \<Rightarrow> Inl TypeError) vs of
             Inl e \<Rightarrow> Inl e
           | Inr xs \<Rightarrow> if prod_list dims = length xs then Inr (NDArray d dims xs) else Inl ValueError)
      | PArray a \<Rightarrow>
          (if prod_list dims = length (arr_data a) then Inr (NDArray d dims (arr_data a))
           else Inl ValueError)
      | _ \<Rightarrow> Inl TypeError)"

definition example_libs :: libs where
  "example_libs =
     \<lparr> np_dtype = example_dtype, np_array_reshape = example_array_reshape,
       make_tensor = example_make_tensor \<rparr>"

text \<open>Names not yet in use are kept as they are; a name in use gets a suffix.\<close>

definition example_unique_name :: "name list \<Rightarrow> name \<Rightarrow> name" where
  "example_unique_name used nm = (if nm \<in> set used then nm @ '' 1'' else nm)"

definition new_graph :: node_graph where
  "new_graph =
     \<lparr> nodes = [], pipes = [], calls = [], graph_name = ''graph'', opset = 13,
       doc_string = [], import_domains = [], producer_name = ''producer'',
       producer_version = ''1'', ir_version = 8, model_version = 1 \<rparr>"

text \<open>The graph \<open>x \<rightarrow> Relu \<rightarrow> y\<close> of the scenario in the specification.\<close>

definition relu_onnx :: gs_graph where
  "relu_onnx =
     \<lparr> gs_nodes =
         [\<lparr> n_op = ''Relu'', n_name = ''relu0'', n_attrs = [],
            n_inputs = [(0, Variable ''x'' (Some ''float32'') (Some [Dim 1, Dim 3]))],
            n_outputs = [(1, Variable ''y'' (Some ''float32'') (Some [Dim 1, Dim 3]))] \<rparr>],
       gs_inputs = [(0, Variable ''x'' (Some ''float32'') (Some [Dim 1, Dim 3]))],
       gs_outputs = [(1, Variable ''y'' (Some ''float32'') (Some [Dim 1, Dim 3]))],
       gs_name = ''graph'', gs_opset = 13, gs_doc_string = [], gs_import_domains = [] \<rparr>"

text \<open>A \<^verbatim>\<open>Constant\<close> operator holding the 1-d tensor \<open>[1, 2, 3]\<close>, whose output is the
  graph output \<open>c\<close>.\<close>

definition constant_record :: gs_node where
  "constant_record =
     \<lparr> n_op = ''Constant'', n_name = ''const0'',
       n_attrs = [(''value'', PTensor (Constant ''value'' (NDArray ''int64'' [3] [1, 2, 3])))],
       n_inputs = [],
       n_outputs = [(0, Variable ''c'' (Some ''int64'') (Some [Dim 3]))] \<rparr>"

definition const_onnx :: gs_graph where
  "const_onnx =
     \<lparr> gs_nodes = [constant_record],
       gs_inputs = [],
       gs_outputs = [(0, Variable ''c'' (Some ''int64'') (Some [Dim 3]))],
       gs_name = ''graph'', gs_opset = 13, gs_doc_string = [], gs_import_domains = [] \<rparr>"

text \<open>A \<^verbatim>\<open>ConstantOfShape\<close> operator that reads the graph input \<open>s\<close> and writes the graph
  output \<open>z\<close>, as an ONNX model with this operator has it.\<close>

definition constant_of_shape_record :: gs_node where
  "constant_of_shape_record =
     \<lparr> n_op = ''ConstantOfShape'', n_name = ''fill0'',
       n_attrs = [(''value'', PTensor (Constant ''value'' (NDArray ''float32'' [1] [0])))],
       n_inputs = [(0, Variable ''s'' (Some ''int64'') (Some [Dim 2]))],
       n_outputs = [(1, Variable ''z'' (Some ''float32'') None)] \<rparr>"

definition fill_onnx :: gs_graph where
  "fill_onnx =
     \<lparr> gs_nodes = [constant_of_shape_record],
       gs_inputs = [(0, Variable ''s'' (Some ''int64'') (Some [Dim 2]))],
       gs_outputs = [(1, Variable ''z'' (Some ''float32'') None)],
       gs_name = ''graph'', gs_opset = 13, gs_doc_string = [], gs_import_domains = [] \<rparr>"

text \<open>A 2 by 2 tensor.\<close>

definition value22 :: ndarray where
  "value22 = NDArray ''int64'' [2, 2] [1, 2, 3, 4]"

text \<open>Stand-ins for \<^verbatim>\<open>gs.export_onnx\<close> returning a model and for a checker that raises.\<close>

definition export_ok :: "gs_graph \<Rightarrow> error + model_proto" where
  "export_ok G =
     Inr \<lparr> mp_graph = G, mp_producer_name = [], mp_producer_version = [],
           mp_ir_version = 0, mp_model_version = 0 \<rparr>"

definition check_fails :: "model_proto \<Rightarrow> error option" where
  "check_fails m = Some ValueError"

text \<open>A layout that puts vertex \<open>i\<close> at \<open>(0, i)\<close>, for as many vertices as the edges name.\<close>

definition example_layout :: "(nat \<times> nat) list \<Rightarrow> (rat \<times> rat) list" where
  "example_layout edges =
     map (\<lambda>i. (0, of_nat i)) [0 ..< Suc (Max (set (map fst edges @ map snd edges)))]"

text \<open>The graph an import into the empty graph gives (the empty graph when it raises).\<close>

definition imported :: "gs_graph \<Rightarrow> node_graph" where
  "imported G =
     (case ONNXtoNodeGraph example_unique_name G new_graph of Inl e \<Rightarrow> new_graph | Inr g \<Rightarrow> g)"

text \<open>A \<^verbatim>\<open>Constant\<close> operator holding the 2 by 2 tensor, and the graph whose output
  \<open>m\<close> it writes.\<close>

definition constant22_record :: gs_node where
  "constant22_record =
     \<lparr> n_op = ''Constant'', n_name = ''const1'',
       n_attrs = [(''value'', PTensor (Constant ''value'' value22))],
       n_inputs = [],
       n_outputs = [(0, Variable ''m'' (Some ''int64'') (Some [Dim 2, Dim 2]))] \<rparr>"

definition const22_onnx :: gs_graph where
  "const22_onnx =
     \<lparr> gs_nodes = [constant22_record],
       gs_inputs = [],
       gs_outputs = [(0, Variable ''m'' (Some ''int64'') (Some [Dim 2, Dim 2]))],
       gs_name = ''graph'', gs_opset = 13, gs_doc_string = [], gs_import_domains = [] \<rparr>"

text \<open>The graph \<open>Constant \<rightarrow> c \<rightarrow> Relu \<rightarrow> y\<close>: the \<^verbatim>\<open>Constant\<close> operator writes the tensor
  \<open>c\<close> that the \<^verbatim>\<open>Relu\<close> operator reads; \<open>c\<close> is one object.\<close>

definition const_relu_onnx :: gs_graph where
  "const_relu_onnx =
     \<lparr> gs_nodes =
         [\<lparr> n_op = ''Constant'', n_name = ''const0'',
            n_attrs = [(''value'', PTensor (Constant ''value'' (NDArray ''int64'' [3] [1, 2, 3])))],
            n_inputs = [],
            n_outputs = [(0, Variable ''c'' (Some ''int64'') (Some [Dim 3]))] \<rparr>,
          \<lparr> n_op = ''Relu'', n_name = ''relu0'', n_attrs = [],
            n_inputs = [(0, Variable ''c'' (Some ''int64'') (Some [Dim 3]))],
            n_outputs = [(1, Variable ''y'' (Some ''int64'') (Some [Dim 3]))] \<rparr>],
       gs_inputs = [],
       gs_outputs = [(1, Variable ''y'' (Some ''int64'') (Some [Dim 3]))],
       gs_name = ''graph'', gs_opset = 13, gs_doc_string = [], gs_import_domains = [] \<rparr>"

text \<open>The tensor objects of the operator records of an exported graph: for each record
  its operator type and the address and name of each input and output.\<close>

definition record_objects :: "gs_graph \<Rightarrow> (string \<times> (nat \<times> name) list \<times> (nat \<times> name) list) list" where
  "record_objects G =
     map (\<lambda>r. (n_op r, map (\<lambda>v. (fst v, tensor_name (snd v))) (n_inputs r),
                  map (\<lambda>v. (fst v, tensor_name (snd v))) (n_outputs r))) (gs_nodes G)"

text \<open>The graph with the input \<open>x\<close> and the output \<open>y\<close> and no operator between them.\<close>

definition unwired_onnx :: gs_graph where
  "unwired_onnx = relu_onnx\<lparr> gs_nodes := [] \<rparr>"

text \<open>The state of an export pass before anything is declared, and port records for
  each case of the resolution.\<close>

definition fresh_state :: export_state where
  "fresh_state = \<lparr> gs_variables_all = [], next_id = 0, resolved = [] \<rparr>"

definition io_untyped :: OnnxNodeIO where
  "io_untyped = OnnxNodeIO ''u'' None (Some [Dim 4]) (PList [PNum 1])"

definition io_variable :: OnnxNodeIO where
  "io_variable = OnnxNodeIO ''v'' (Some ''float32'') (Some [Dim 1, Dim 3]) PNone"

definition io_constant :: OnnxNodeIO where
  "io_constant = OnnxNodeIO ''k'' (Some ''int64'') (Some [Dim 3]) (PList [PNum 1, PNum 2, PNum 3])"

definition io_mismatch :: OnnxNodeIO where
  "io_mismatch = OnnxNodeIO ''w'' (Some ''int64'') (Some [Dim 2]) (PList [PNum 1, PNum 2, PNum 3])"

text \<open>A visual graph with one Operator vertex whose port record holds three values for a
  shape of two elements.\<close>

definition mismatch_graph :: node_graph where
  "mismatch_graph =
     new_graph\<lparr> nodes :=
       [(new_node ONNXNode ''id0'')\<lparr> node_name := ''id0'', op := ''Identity'',
           onnx_inputs := [io_mismatch], onnx_outputs := [io_variable] \<rparr>] \<rparr>"

text \<open>The chain \<open>a \<rightarrow> Relu \<rightarrow> b \<rightarrow> Relu \<rightarrow> c\<close>: the name \<open>b\<close> occurs in two vertices.\<close>

definition chain_onnx :: gs_graph where
  "chain_onnx =
     \<lparr> gs_nodes =
         [\<lparr> n_op = ''Relu'', n_name = ''relu0'', n_attrs = [],
            n_inputs = [(0, Variable ''a'' (Some ''float32'') (Some [Dim 2]))],
            n_outputs = [(1, Variable ''b'' (Some ''float32'') (Some [Dim 2]))] \<rparr>,
          \<lparr> n_op = ''Relu'', n_name = ''relu1'', n_attrs = [],
            n_inputs = [(1, Variable ''b'' (Some ''float32'') (Some [Dim 2]))],
            n_outputs = [(2, Variable ''c'' (Some ''float32'') (Some [Dim 2]))] \<rparr>],
       gs_inputs = [(0, Variable ''a'' (Some ''float32'') (Some [Dim 2]))],
       gs_outputs = [(2, Variable ''c'' (Some ''float32'') (Some [Dim 2]))],
       gs_name = ''graph'', gs_opset = 13, gs_doc_string = [], gs_import_domains = [] \<rparr>"

text \<open>The invariant of an export pass: every entry of \<^verbatim>\<open>gs_variables_all\<close> is filed under
  the name of its object, and every object a resolution has returned is the entry of its
  name.\<close>

definition consistent :: "export_state \<Rightarrow> bool" where
  "consistent st \<longleftrightarrow>
     (\<forall>k v. map_of (gs_variables_all st) k = Some v \<longrightarrow> tensor_name (snd v) = k)
     \<and> (\<forall>v \<in> set (resolved st). map_of (gs_variables_all st) (tensor_name (snd v)) = Some v)"


section \<open>Notions used in the statements about import\<close>

fun is_lock_call :: "event \<Rightarrow> bool" where
  "is_lock_call (PortLocked _) = True"
| "is_lock_call _ = False"

text \<open>The log \<open>c'\<close> is \<open>c\<close> followed by calls that all satisfy \<open>Q\<close>.\<close>

definition appended :: "(event \<Rightarrow> bool) \<Rightarrow> event list \<Rightarrow> event list \<Rightarrow> bool" where
  "appended Q c c' \<longleftrightarrow> (\<exists>es. c' = c @ es \<and> list_all Q es)"

definition all_locked :: "qt_node \<Rightarrow> bool" where
  "all_locked n \<longleftrightarrow> list_all (\<lambda>b. b) (input_ports n) \<and> list_all (\<lambda>b. b) (output_ports n)"

fun valid_port :: "node_graph \<Rightarrow> port_ref \<Rightarrow> bool" where
  "valid_port g (InPort n i) = (n < length (nodes g) \<and> i < length (input_ports (nodes g ! n)))"
| "valid_port g (OutPort n i) = (n < length (nodes g) \<and> i < length (output_ports (nodes g ! n)))"

fun port_is_locked :: "node_graph \<Rightarrow> port_ref \<Rightarrow> bool" where
  "port_is_locked g (InPort n i) = (valid_port g (InPort n i) \<and> input_ports (nodes g ! n) ! i)"
| "port_is_locked g (OutPort n i) = (valid_port g (OutPort n i) \<and> output_ports (nodes g ! n) ! i)"

text \<open>The ports of a vertex, in the order the locking loop visits them.\<close>

definition ports_of :: "node_graph \<Rightarrow> nat \<Rightarrow> port_ref list" where
  "ports_of g n =
     map (InPort n) [0 ..< length (input_ports (nodes g ! n))]
     @ map (OutPort n) [0 ..< length (output_ports (nodes g ! n))]"

text \<open>All the ports of a graph, vertex by vertex, and the locking calls that the loop of
  lines 564 to 568 makes on a graph: for each port the call on the port itself and then
  the calls on the ports connected to it.\<close>

definition all_ports :: "node_graph \<Rightarrow> port_ref list" where
  "all_ports g = concat (map (ports_of g) [0 ..< length (nodes g)])"

definition lock_calls :: "node_graph \<Rightarrow> event list" where
  "lock_calls g = map PortLocked (concat (map (\<lambda>p. p # connected_ports g p) (all_ports g)))"

text \<open>A vertex differs from another at most in the locked flags of its ports: it has the
  same fields and the same number of input and of output ports, and the ports that were
  locked are locked.\<close>

definition grows :: "qt_node \<Rightarrow> qt_node \<Rightarrow> bool" where
  "grows n n' \<longleftrightarrow>
     n' = n\<lparr> input_ports := input_ports n', output_ports := output_ports n' \<rparr>
     \<and> list_all2 (\<lambda>a b. a \<longrightarrow> b) (input_ports n) (input_ports n')
     \<and> list_all2 (\<lambda>a b. a \<longrightarrow> b) (output_ports n) (output_ports n')"

text \<open>A graph differs from another at most in locked flags and in the log of calls: the
  same vertices in the same order, each grown, and the same pipes and metadata.\<close>

definition locks_grow :: "node_graph \<Rightarrow> node_graph \<Rightarrow> bool" where
  "locks_grow g g' \<longleftrightarrow>
     list_all2 grows (nodes g) (nodes g')
     \<and> g' = g\<lparr> nodes := nodes g', calls := calls g' \<rparr>"

text \<open>The numbers of input and of output ports of the vertices of a graph.\<close>

definition port_counts :: "node_graph \<Rightarrow> (nat \<times> nat) list" where
  "port_counts g = map (\<lambda>n. (length (input_ports n), length (output_ports n))) (nodes g)"

text \<open>A vertex of operator type \<^verbatim>\<open>Constant\<close> has no input port.\<close>

definition sealed :: "qt_node \<Rightarrow> bool" where
  "sealed n \<longleftrightarrow> (op n = ''Constant'' \<longrightarrow> length (input_ports n) = 0)"

text \<open>A vertex has at least one port.\<close>

definition has_port :: "qt_node \<Rightarrow> bool" where
  "has_port n \<longleftrightarrow> 0 < length (input_ports n) + length (output_ports n)"

text \<open>The steps of an import before the locking: vertices are only added, each sealed
  and with a port, and the calls logged are no locking calls.\<close>

definition creates :: "node_graph \<Rightarrow> node_graph \<Rightarrow> bool" where
  "creates g g' \<longleftrightarrow>
     (\<exists>ns. nodes g' = nodes g @ ns \<and> list_all sealed ns \<and> list_all has_port ns)
     \<and> appended (\<lambda>e. \<not> is_lock_call e) (calls g) (calls g')"


section \<open>Properties\<close>


subsection \<open>Lookup by name\<close>

lemma count_matches_enumerate:
  "count_list (concat (map (matches_of nm) (enumerate k xs))) i =
     (if k \<le> i \<and> i < k + length xs then length (matches_of nm (i, xs ! (i - k))) else 0)"
proof (induction xs arbitrary: k)
  case Nil
  then show ?case by auto
next
  case (Cons x xs)
  have here: "count_list (matches_of nm (k, x)) i = (if i = k then length (matches_of nm (k, x)) else 0)"
    by (simp add: matches_of_def)
  show ?case
    using Cons.IH [of "Suc k"] here
    by (auto simp: nth_Cons' Suc_diff_le)
qed

lemma distinct_count_le_one: "distinct xs \<Longrightarrow> count_list xs x \<le> 1"
  by (induction xs) (auto simp: count_list_0_iff)

text \<open>
  Claim C10. Looking a vertex up by name can return it more than once: an Operator
  vertex whose stored \<open>node_name\<close> equals its display name \<open>qt_name\<close> occurs exactly twice
  in the result of \<open>get_node_by_name\<close> for that name, so the result is not duplicate-free.
\<close>

theorem get_node_by_name_twice:
  assumes "i < length (nodes g)"
    and "node_type (nodes g ! i) = ONNXNode"
    and "node_name (nodes g ! i) = qt_name (nodes g ! i)"
  shows "count_list (get_node_by_name g (qt_name (nodes g ! i))) i = 2
         \<and> \<not> distinct (get_node_by_name g (qt_name (nodes g ! i)))"
proof -
  let ?r = "get_node_by_name g (qt_name (nodes g ! i))"
  have c: "count_list ?r i = 2"
    using assms by (simp add: get_node_by_name_def count_matches_enumerate matches_of_def)
  have "distinct ?r \<Longrightarrow> count_list ?r i \<le> 1"
    by (rule distinct_count_le_one)
  with c show ?thesis by auto
qed

text \<open>The Operator vertex of the imported graph \<open>x \<rightarrow> Relu \<rightarrow> y\<close> is found twice.\<close>

theorem get_node_by_name_twice_witness:
  "count_list (get_node_by_name (imported relu_onnx) ''relu0'') 2 = 2
   \<and> \<not> distinct (get_node_by_name (imported relu_onnx) ''relu0'')"
proof -
  have h1: "2 < length (nodes (imported relu_onnx))" by code_simp
  have h2: "node_type (nodes (imported relu_onnx) ! 2) = ONNXNode" by code_simp
  have h3: "node_name (nodes (imported relu_onnx) ! 2) = qt_name (nodes (imported relu_onnx) ! 2)"
    by code_simp
  have n: "qt_name (nodes (imported relu_onnx) ! 2) = ''relu0''" by code_simp
  show ?thesis using get_node_by_name_twice [OF h1 h2 h3] n by simp
qed


subsection \<open>Classification of tensor references\<close>

lemma classify_instantiable:
  assumes "instantiable t"
  shows "\<exists>io. classify_input t = Inr io \<and> classify_output t = Inr io \<and> io_name io = tensor_name t"
  using assms by (cases t) (auto split: option.splits)

lemma map_result_cong_all:
  assumes "list_all (\<lambda>x. f x = g x) xs"
  shows "map_result f xs = map_result g xs"
  using assms by (induction xs) (auto split: sum.splits)

text \<open>
  Claim C8. The classification of a tensor reference is the same function for the inputs
  and for the outputs of an operator: for every tensor object that a graph can hold (an
  instance of \<^verbatim>\<open>gs.Variable\<close>, of \<^verbatim>\<open>gs.Constant\<close> or of another class; the base class
  \<^verbatim>\<open>gs.Tensor\<close> has no instances) the loop over the inputs and the loop over the outputs
  store the same port record, and so they do for whole lists of such objects.
\<close>

theorem classification_same_for_inputs_and_outputs:
  "(instantiable t \<longrightarrow>
      (\<exists>io. classify_input t = Inr io \<and> classify_output t = Inr io))
   \<and> (list_all instantiable ts \<longrightarrow>
        map_result classify_output ts = map_result classify_input ts)"
proof (intro conjI impI)
  assume "instantiable t"
  from classify_instantiable [OF this]
  show "\<exists>io. classify_input t = Inr io \<and> classify_output t = Inr io" by blast
next
  assume a: "list_all instantiable ts"
  have "list_all (\<lambda>x. classify_output x = classify_input x) ts"
    using a classify_instantiable by (fastforce simp: list_all_iff)
  then show "map_result classify_output ts = map_result classify_input ts"
    by (rule map_result_cong_all)
qed

text \<open>A variable with a known dtype, a variable without one, a constant holding a 2 by 2
  array and an object of another class, one from each case of the classification.\<close>

theorem classification_same_for_inputs_and_outputs_witness:
  "classify_output (Variable ''x'' (Some ''float32'') (Some [Dim 1, Dim 3]))
     = Inr (OnnxNodeIO ''x'' (Some ''float32'') (Some [Dim 1, Dim 3]) PNone)
   \<and> classify_input (Variable ''x'' (Some ''float32'') (Some [Dim 1, Dim 3]))
     = Inr (OnnxNodeIO ''x'' (Some ''float32'') (Some [Dim 1, Dim 3]) PNone)
   \<and> map_result classify_output
        [Variable ''u'' None (Some [Dim 2]), Constant ''k'' value22, OtherTensor ''o'']
     = Inr [OnnxNodeIO ''u'' None None PNone,
            OnnxNodeIO ''k'' (Some ''int64'') (Some [Dim 2, Dim 2])
              (PList [PList [PNum 1, PNum 2], PList [PNum 3, PNum 4]]),
            OnnxNodeIO ''o'' None None PNone]"
proof -
  let ?x = "Variable ''x'' (Some ''float32'') (Some [Dim 1, Dim 3])"
  let ?ts = "[Variable ''u'' None (Some [Dim 2]), Constant ''k'' value22, OtherTensor ''o'']"
  have i: "instantiable ?x" by simp
  have l: "list_all instantiable ?ts" by simp
  have x: "classify_input ?x = Inr (OnnxNodeIO ''x'' (Some ''float32'') (Some [Dim 1, Dim 3]) PNone)"
    by code_simp
  have m: "map_result classify_input ?ts
     = Inr [OnnxNodeIO ''u'' None None PNone,
            OnnxNodeIO ''k'' (Some ''int64'') (Some [Dim 2, Dim 2])
              (PList [PList [PNum 1, PNum 2], PList [PNum 3, PNum 4]]),
            OnnxNodeIO ''o'' None None PNone]"
    by code_simp
  note t = classification_same_for_inputs_and_outputs [of ?x ?ts]
  from t i x have 1: "classify_output ?x
      = Inr (OnnxNodeIO ''x'' (Some ''float32'') (Some [Dim 1, Dim 3]) PNone)"
    by auto
  from t l m have 2: "map_result classify_output ?ts
     = Inr [OnnxNodeIO ''u'' None None PNone,
            OnnxNodeIO ''k'' (Some ''int64'') (Some [Dim 2, Dim 2])
              (PList [PList [PNum 1, PNum 2], PList [PNum 3, PNum 4]]),
            OnnxNodeIO ''o'' None None PNone]"
    by simp
  from 1 x 2 show ?thesis by simp
qed


subsection \<open>Attributes\<close>

lemma chunks_singletons: "chunks (length xs) (Suc 0) xs = map (\<lambda>x. [x]) xs"
  by (induction xs) auto

lemma tolist_1d: "arr_shape a = [length (arr_data a)] \<Longrightarrow> tolist a = flat_list a"
  by (simp add: tolist_def flat_list_def chunks_singletons)

lemma import_attrs_Inr:
  assumes "import_attrs opname ats = Inr r"
  shows "(opname \<noteq> ''Constant'' \<longrightarrow> r = ats)
       \<and> (opname = ''Constant'' \<longrightarrow>
            (\<exists>nm a. map_of ats ''value'' = Some (PTensor (Constant nm a))
               \<and> r = [(''dtype'', PStr (arr_dtype a)), (''values'', tolist a)]))"
  using assms
  by (auto simp: import_attrs_def split: option.splits pyvalue.splits tensor.splits if_splits)

lemma delete_input_attrs: "delete_input i n = Inr n' \<Longrightarrow> attrs n' = attrs n \<and> op n' = op n"
  by (auto simp: delete_input_def split: if_splits)

lemma fill_qtnode_attrs:
  assumes "fill_qtnode nd n = Inr n'"
  shows "import_attrs (n_op nd) (n_attrs nd) = Inr (attrs n') \<and> op n' = n_op nd"
  using assms
  by (auto simp: fill_qtnode_def Let_def split: sum.splits if_splits dest!: delete_input_attrs)

lemma create_qtnode_node:
  assumes "create_qtnode uniq nd g = Inr (i, g')"
  shows "i = length (nodes g) \<and> length (nodes g') = Suc (length (nodes g))
     \<and> fill_qtnode nd (new_node ONNXNode (uniq (map qt_name (nodes g)) (n_name nd))) = Inr (nodes g' ! i)"
  using assms
  by (auto simp: create_qtnode_def create_node_def update_node_def Let_def split: sum.splits)

text \<open>
  When \<^verbatim>\<open>create_qtnode\<close> returns, the vertex stores the attributes of the operator
  record unchanged unless the operator type is \<^verbatim>\<open>Constant\<close>; for \<^verbatim>\<open>Constant\<close> the
  record has a tensor under the key \<^verbatim>\<open>value\<close> and the vertex stores exactly the two keys
  \<^verbatim>\<open>dtype\<close> (the printed dtype of that tensor) and \<^verbatim>\<open>values\<close>, the \<^verbatim>\<open>tolist()\<close> of its
  array, which is the flat list of the elements when the tensor is one-dimensional.
\<close>

lemma create_qtnode_attrs:
  assumes "create_qtnode uniq nd g = Inr (i, g')"
  shows "(n_op nd \<noteq> ''Constant'' \<longrightarrow> attrs (nodes g' ! i) = n_attrs nd)
       \<and> (n_op nd = ''Constant'' \<longrightarrow>
            (\<exists>nm a. map_of (n_attrs nd) ''value'' = Some (PTensor (Constant nm a))
               \<and> attrs (nodes g' ! i) = [(''dtype'', PStr (arr_dtype a)), (''values'', tolist a)]
               \<and> (arr_shape a = [length (arr_data a)] \<longrightarrow> tolist a = flat_list a)))"
proof -
  from create_qtnode_node [OF assms] obtain n0 where "fill_qtnode nd n0 = Inr (nodes g' ! i)"
    by blast
  then have "import_attrs (n_op nd) (n_attrs nd) = Inr (attrs (nodes g' ! i))"
    by (simp add: fill_qtnode_attrs)
  from import_attrs_Inr [OF this] show ?thesis
    using tolist_1d by blast
qed

text \<open>The \<^verbatim>\<open>Constant\<close> record with the tensor \<open>[1, 2, 3]\<close> and the \<^verbatim>\<open>Relu\<close> record.\<close>

lemma create_qtnode_attrs_examples:
  "n_op constant_record = ''Constant''
   \<and> attrs (nodes (snd (projr (create_qtnode example_unique_name constant_record new_graph))) ! 0)
       = [(''dtype'', PStr ''int64''), (''values'', PList [PNum 1, PNum 2, PNum 3])]
   \<and> attrs (nodes (snd (projr (create_qtnode example_unique_name (hd (gs_nodes relu_onnx)) new_graph))) ! 0)
       = []"
proof -
  let ?r = "create_qtnode example_unique_name constant_record new_graph"
  let ?q = "create_qtnode example_unique_name (hd (gs_nodes relu_onnx)) new_graph"
  have h: "?r = Inr (0, snd (projr ?r))" by code_simp
  have k: "?q = Inr (0, snd (projr ?q))" by code_simp
  have c: "n_op constant_record = ''Constant''" by code_simp
  have r: "n_op (hd (gs_nodes relu_onnx)) \<noteq> ''Constant''" by code_simp
  have v: "map_of (n_attrs constant_record) ''value''
             = Some (PTensor (Constant ''value'' (NDArray ''int64'' [3] [1, 2, 3])))"
    by code_simp
  have t: "tolist (NDArray ''int64'' [3] [1, 2, 3]) = PList [PNum 1, PNum 2, PNum 3]"
    by code_simp
  have e: "n_attrs (hd (gs_nodes relu_onnx)) = []" by code_simp
  from create_qtnode_attrs [OF h] c v t
  have "attrs (nodes (snd (projr ?r)) ! 0)
          = [(''dtype'', PStr ''int64''), (''values'', PList [PNum 1, PNum 2, PNum 3])]"
    by simp
  moreover from create_qtnode_attrs [OF k] r e have "attrs (nodes (snd (projr ?q)) ! 0) = []"
    by simp
  ultimately show ?thesis using c by simp
qed

text \<open>The export takes a list under the key \<^verbatim>\<open>values\<close> for a one-dimensional tensor
  (lines 426 and 427, \<^verbatim>\<open>shape = [len(attr_values)]\<close>): whatever the libraries do, the
  tensor is made with the single dimension \<open>length vs\<close> and the output of the record is
  declared with that shape.\<close>

lemma constant_node_list_dims:
  assumes "constant_node L n outs st = Inr (nd, st')"
    and "map_of (attrs n) ''values'' = Some (PList vs)"
  shows "\<exists>d a. make_tensor L d [length vs] (PList vs) = Inr a
           \<and> n_attrs nd = [(''value'', PTensor (Constant ''value'' a))]
           \<and> map (\<lambda>v. tensor_shape (snd v)) (n_outputs nd)
               = [Inr (Some [Dim (int (length vs))])]"
  using assms
  by (auto simp: constant_node_def lookup_def Let_def new_object_def
           split: sum.splits list.splits option.splits)

text \<open>So the export of the graph imported from the model with the 2 by 2 constant asks
  for a tensor with the dimensions \<open>[2]\<close> and the two rows as its elements, which fails,
  while the export of the graph imported from the model with the constant \<open>[1, 2, 3]\<close>
  gives the constant back.\<close>

lemma export_of_imported_matrix_constant:
  "map attrs (nodes (imported const22_onnx))
     = [[], [(''dtype'', PStr ''int64''),
             (''values'', PList [PList [PNum 1, PNum 2], PList [PNum 3, PNum 4]])]]
   \<and> NodeGraphtoONNX example_libs (imported const22_onnx) = Inl TypeError
   \<and> (case NodeGraphtoONNX example_libs (imported const_onnx) of
         Inl e \<Rightarrow> []
       | Inr G \<Rightarrow> map n_attrs (gs_nodes G))
       = [[(''value'', PTensor (Constant ''value'' (NDArray ''int64'' [3] [1, 2, 3])))]]"
  by code_simp

text \<open>
  Claim C7. On import the attributes of a \<^verbatim>\<open>Constant\<close> record are replaced by the two keys
  \<^verbatim>\<open>dtype\<close> and \<^verbatim>\<open>values\<close>, and \<^verbatim>\<open>values\<close> is meant to be the contents of the value tensor
  flattened to a list, which is also what the export of the same module reads it as. For
  the \<^verbatim>\<open>Constant\<close> record holding the 2 by 2 tensor the import stores the nested list
  \<open>[[1, 2], [3, 4]]\<close>, not the flat list \<open>[1, 2, 3, 4]\<close>.
\<close>

theorem constant_values_not_flattened:
  "(case create_qtnode example_unique_name constant22_record new_graph of
      Inl e \<Rightarrow> None
    | Inr r \<Rightarrow> map_of (attrs (nodes (snd r) ! fst r)) ''values'')
     = Some (PList [PList [PNum 1, PNum 2], PList [PNum 3, PNum 4]])
   \<and> flat_list value22 = PList [PNum 1, PNum 2, PNum 3, PNum 4]
   \<and> n_attrs constant22_record = [(''value'', PTensor (Constant ''value'' value22))]"
  by code_simp


subsection \<open>Serialization\<close>

text \<open>
  Claim C4, amended. No exception of \<^verbatim>\<open>gs.export_onnx\<close> or of the checker leaves
  \<^verbatim>\<open>to_onnx\<close>; the result is \<^verbatim>\<open>None\<close> exactly when \<^verbatim>\<open>gs.export_onnx\<close> raised, and
  otherwise it is the stamped model, whether or not the check raised. An exception of the
  graph translation, which runs before the \<^verbatim>\<open>try\<close>, leaves \<^verbatim>\<open>to_onnx\<close>.
\<close>

theorem to_onnx_result:
  "(NodeGraphtoONNX L g = Inr G \<longrightarrow>
      to_onnx L export_onnx check_model g
        = Inr (case export_onnx G of Inl e \<Rightarrow> None | Inr m \<Rightarrow> Some (stamp g m)))
   \<and> (NodeGraphtoONNX L g = Inl e \<longrightarrow> to_onnx L export_onnx check_model g = Inl e)"
  by (auto simp: to_onnx_def split: sum.splits option.splits)

text \<open>The graph \<open>x \<rightarrow> Relu \<rightarrow> y\<close> with a failing checker, and a graph whose translation
  raises.\<close>

theorem to_onnx_result_witness:
  "to_onnx example_libs export_ok check_fails (imported relu_onnx)
     = Inr (Some (stamp (imported relu_onnx)
                    (projr (export_ok (projr (NodeGraphtoONNX example_libs (imported relu_onnx)))))))
   \<and> to_onnx example_libs export_ok check_fails (imported fill_onnx) = Inl (KeyError ''dtype'')"
proof -
  let ?g = "imported relu_onnx"
  let ?G = "projr (NodeGraphtoONNX example_libs ?g)"
  have h: "NodeGraphtoONNX example_libs ?g = Inr ?G" by code_simp
  have f: "NodeGraphtoONNX example_libs (imported fill_onnx) = Inl (KeyError ''dtype'')"
    by code_simp
  from to_onnx_result [of example_libs ?g ?G export_ok check_fails] h
  have "to_onnx example_libs export_ok check_fails ?g
          = Inr (case export_ok ?G of Inl e \<Rightarrow> None | Inr m \<Rightarrow> Some (stamp ?g m))"
    by simp
  then have "to_onnx example_libs export_ok check_fails ?g
          = Inr (Some (stamp ?g (projr (export_ok ?G))))"
    by (simp add: export_ok_def)
  moreover from to_onnx_result [of example_libs "imported fill_onnx" _ export_ok check_fails "KeyError ''dtype''"] f
  have "to_onnx example_libs export_ok check_fails (imported fill_onnx) = Inl (KeyError ''dtype'')"
    by simp
  ultimately show ?thesis by simp
qed

text \<open>
  Claim C4 as stated says that an exception of the structural check gives a null
  result. Here the checker raises and \<^verbatim>\<open>to_onnx\<close> returns a model.
\<close>

theorem check_failure_returns_model:
  "check_fails (stamp (imported relu_onnx)
       (projr (export_ok (projr (NodeGraphtoONNX example_libs (imported relu_onnx))))))
     = Some ValueError
   \<and> to_onnx example_libs export_ok check_fails (imported relu_onnx) \<noteq> Inr None"
  by code_simp

subsection \<open>Layout\<close>

text \<open>Without pipes there are no edges, and the layout returns early.\<close>

lemma no_pipes_no_edges:
  assumes "pipes g = []"
  shows "NodeGraphToEdges g reverse = Inr []"
proof -
  have c: "concat (connected_input_nodes g n) = []" for n
    using assms by (simp add: connected_input_nodes_def)
  have e: "edges_of_node g reverse ns p = Inr []" for ns p
    by (simp add: edges_of_node_def c)
  have m: "map_result (edges_of_node g reverse ns) ps = Inr (map (\<lambda>_. []) ps)" for ns ps
    by (induction ps) (simp_all add: e)
  show ?thesis
    by (simp add: NodeGraphToEdges_def Let_def m)
qed

lemma auto_layout_no_pipes:
  assumes "pipes g = []"
  shows "auto_layout_nodes layout g True
           = (None, g\<lparr> calls := calls g @ [BeginUndo ''Auto Layout Nodes''] \<rparr>)"
proof -
  have "NodeGraphToEdges (g\<lparr> calls := calls g @ [BeginUndo ''Auto Layout Nodes''] \<rparr>) True = Inr []"
    using assms by (intro no_pipes_no_edges) simp
  then show ?thesis by (simp add: auto_layout_nodes_def)
qed

text \<open>
  Claim C9. With undo recording on, \<^verbatim>\<open>begin_undo\<close> is meant to be followed by a matching
  \<^verbatim>\<open>end_undo\<close> also on the early return taken when there are no edges. On the imported
  graph with the two unconnected vertices \<open>x\<close> and \<open>y\<close> the function returns after
  \<^verbatim>\<open>begin_undo\<close> alone: the group stays open.
\<close>

theorem auto_layout_begin_without_end:
  "auto_layout_nodes layout (imported unwired_onnx) True
     = (None, (imported unwired_onnx)
          \<lparr> calls := calls (imported unwired_onnx) @ [BeginUndo ''Auto Layout Nodes''] \<rparr>)
   \<and> bracketed False (calls (imported unwired_onnx))
   \<and> \<not> bracketed False (calls (snd (auto_layout_nodes layout (imported unwired_onnx) True)))"
proof -
  have p: "pipes (imported unwired_onnx) = []" by code_simp
  have b: "bracketed False (calls (imported unwired_onnx))" by code_simp
  have n: "\<not> bracketed False (calls (imported unwired_onnx) @ [BeginUndo ''Auto Layout Nodes''])"
    by code_simp
  show ?thesis using auto_layout_no_pipes [OF p] b n by simp
qed

text \<open>With edges and enough coordinates the group is closed.\<close>

lemma auto_layout_relu_bracketed:
  "fst (auto_layout_nodes example_layout (imported relu_onnx) True) = None
   \<and> bracketed False (calls (snd (auto_layout_nodes example_layout (imported relu_onnx) True)))"
  by code_simp

subsection \<open>Round trip\<close>

text \<open>
  Claim C1. Exporting a graph and importing the result is meant to give the graph back.
  The import of a model with a \<^verbatim>\<open>ConstantOfShape\<close> operator stores the operator's
  attributes as they are (only \<^verbatim>\<open>Constant\<close> gets the keys \<^verbatim>\<open>dtype\<close> and \<^verbatim>\<open>values\<close>),
  while the export reads \<^verbatim>\<open>attrs["dtype"]\<close> for both operator types: exporting the
  imported graph raises \<^verbatim>\<open>KeyError\<close>, whatever the libraries do, so there is nothing to
  import back.
\<close>

theorem export_of_imported_ConstantOfShape_raises:
  "(case ONNXtoNodeGraph example_unique_name fill_onnx new_graph of
      Inl e \<Rightarrow> None
    | Inr g \<Rightarrow> Some (map op (nodes g), NodeGraphtoONNX L g))
     = Some ([[], [], ''ConstantOfShape''], Inl (KeyError ''dtype''))"
  by code_simp


subsection \<open>Resolution of tensor names during export\<close>

lemma store_new_facts:
  assumes "store_new nm t st = (v, st')"
  shows "v = (next_id st, t)"
    and "gs_variables_all st' = AList.update nm v (gs_variables_all st)"
    and "map_of (gs_variables_all st') nm = Some v"
    and "next_id st' = Suc (next_id st)"
    and "resolved st' = resolved st @ [v]"
  using assms by (auto simp: store_new_def new_object_def update_conv')

lemma sentinel_values:
  "is_sentinel v = Inr True \<longleftrightarrow>
     v = PNone \<or> v = PNum (- 1) \<or> (\<exists>a. v = PArray a \<and> arr_data a = [- 1])"
  by (cases v) (auto split: list.splits)

text \<open>
  Claim C3. For a port record whose name is not yet in \<^verbatim>\<open>gs_variables_all\<close> the export
  resolves in this order: a null dtype gives a new variable with dtype and shape both
  null; otherwise values that are absent or the sentinel give a new variable with the
  stored dtype and shape; otherwise the values are made into an array of the stored
  dtype reshaped to the stored shape and give a new constant, and when that raises (the
  values do not fit the shape) the resolution raises the same exception. The new object
  is filed under the name.
\<close>

theorem resolve_case_order:
  assumes "map_of (gs_variables_all st) (io_name io) = None"
  shows "(io_dtype io = None \<longrightarrow>
            (\<exists>st'. resolve L io st = Inr ((next_id st, Variable (io_name io) None None), st')
               \<and> map_of (gs_variables_all st') (io_name io)
                   = Some (next_id st, Variable (io_name io) None None)))
       \<and> (\<forall>d. io_dtype io = Some d \<longrightarrow> is_sentinel (io_values io) = Inr True \<longrightarrow>
            (\<exists>st'. resolve L io st
                      = Inr ((next_id st, Variable (io_name io) (Some d) (io_shape io)), st')
               \<and> map_of (gs_variables_all st') (io_name io)
                   = Some (next_id st, Variable (io_name io) (Some d) (io_shape io))))
       \<and> (\<forall>d a. io_dtype io = Some d \<longrightarrow> is_sentinel (io_values io) = Inr False \<longrightarrow>
            np_array_reshape L (io_values io) d (io_shape io) = Inr a \<longrightarrow>
            (\<exists>st'. resolve L io st = Inr ((next_id st, Constant (io_name io) a), st')
               \<and> map_of (gs_variables_all st') (io_name io)
                   = Some (next_id st, Constant (io_name io) a)))
       \<and> (\<forall>d e. io_dtype io = Some d \<longrightarrow> is_sentinel (io_values io) = Inr False \<longrightarrow>
            np_array_reshape L (io_values io) d (io_shape io) = Inl e \<longrightarrow>
            resolve L io st = Inl e)"
proof -
  have new: "\<exists>st'. Inr (store_new nm t st) = Inr ((next_id st, t), st')
               \<and> map_of (gs_variables_all st') nm = Some (next_id st, t)" for nm t
    using store_new_facts(1,3) [of nm t st] by (cases "store_new nm t st") auto
  show ?thesis
    using assms new by (simp add: resolve_def)
qed

text \<open>An exception of a resolution is not caught anywhere in the export loop.\<close>

lemma resolve_all_raises:
  "resolve_all L ios st = Inr (vs, st1) \<Longrightarrow> resolve L io st1 = Inl e
     \<Longrightarrow> resolve_all L (ios @ io # rest) st = Inl e"
  by (induction ios arbitrary: st vs) (auto split: sum.splits prod.splits)

lemma fold_result_raises:
  "fold_result f xs s = Inr s1 \<Longrightarrow> f x s1 = Inl e \<Longrightarrow> fold_result f (xs @ x # ys) s = Inl e"
  by (induction xs arbitrary: s) (auto split: sum.splits)

lemma export_node_raises:
  "resolve_all L (onnx_inputs n) (snd s) = Inl e \<Longrightarrow> export_node L n s = Inl e"
  by (simp add: export_node_def)

text \<open>One port record for each case, and the export of a graph with the ill-shaped one.\<close>

theorem resolve_case_order_witness:
  "resolve example_libs io_untyped fresh_state
     = Inr ((0, Variable ''u'' None None),
            \<lparr> gs_variables_all = [(''u'', (0, Variable ''u'' None None))], next_id = 1,
              resolved = [(0, Variable ''u'' None None)] \<rparr>)
   \<and> fst (projr (resolve example_libs io_variable fresh_state))
       = (0, Variable ''v'' (Some ''float32'') (Some [Dim 1, Dim 3]))
   \<and> fst (projr (resolve example_libs io_constant fresh_state))
       = (0, Constant ''k'' (NDArray ''int64'' [3] [1, 2, 3]))
   \<and> resolve example_libs io_mismatch fresh_state = Inl ValueError
   \<and> NodeGraphtoONNX example_libs mismatch_graph = Inl ValueError"
proof -
  have f: "map_of (gs_variables_all fresh_state) (io_name io) = None" for io
    by (simp add: fresh_state_def)
  have n: "next_id fresh_state = 0" by (simp add: fresh_state_def)
  have u: "io_dtype io_untyped = None" "io_name io_untyped = ''u''" by code_simp+
  have v: "io_dtype io_variable = Some ''float32''" "is_sentinel (io_values io_variable) = Inr True"
    "io_name io_variable = ''v''" "io_shape io_variable = Some [Dim 1, Dim 3]"
    by code_simp+
  have k: "io_dtype io_constant = Some ''int64''" "is_sentinel (io_values io_constant) = Inr False"
    "np_array_reshape example_libs (io_values io_constant) ''int64'' (io_shape io_constant)
       = Inr (NDArray ''int64'' [3] [1, 2, 3])" "io_name io_constant = ''k''"
    by code_simp+
  have w: "io_dtype io_mismatch = Some ''int64''" "is_sentinel (io_values io_mismatch) = Inr False"
    "np_array_reshape example_libs (io_values io_mismatch) ''int64'' (io_shape io_mismatch)
       = Inl ValueError"
    by code_simp+
  have 1: "fst (projr (resolve example_libs io_untyped fresh_state)) = (0, Variable ''u'' None None)"
    using resolve_case_order [OF f, of io_untyped example_libs] u n by auto
  have 2: "fst (projr (resolve example_libs io_variable fresh_state))
       = (0, Variable ''v'' (Some ''float32'') (Some [Dim 1, Dim 3]))"
    using resolve_case_order [OF f, of io_variable example_libs] v n by auto
  have 3: "fst (projr (resolve example_libs io_constant fresh_state))
       = (0, Constant ''k'' (NDArray ''int64'' [3] [1, 2, 3]))"
    using resolve_case_order [OF f, of io_constant example_libs] k n by auto
  have 4: "resolve example_libs io_mismatch fresh_state = Inl ValueError"
    using resolve_case_order [OF f, of io_mismatch example_libs] w by auto
  have 5: "resolve example_libs io_untyped fresh_state
     = Inr ((0, Variable ''u'' None None),
            \<lparr> gs_variables_all = [(''u'', (0, Variable ''u'' None None))], next_id = 1,
              resolved = [(0, Variable ''u'' None None)] \<rparr>)"
    by code_simp
  have 6: "NodeGraphtoONNX example_libs mismatch_graph = Inl ValueError"
    by code_simp
  show ?thesis using 1 2 3 4 5 6 by simp
qed



lemma consistent_store_new:
  assumes "consistent st" and "map_of (gs_variables_all st) nm = None" and "tensor_name t = nm"
    and "store_new nm t st = (v, st')"
  shows "consistent st' \<and> resolved st' = resolved st @ [v] \<and> tensor_name (snd v) = nm"
proof -
  note f = store_new_facts [OF assms(4)]
  have old: "map_of (gs_variables_all st) (tensor_name (snd w)) = Some w \<Longrightarrow> tensor_name (snd w) \<noteq> nm" for w
    using assms(2) by auto
  show ?thesis
    using assms(1,3) f old
    unfolding consistent_def
    by (auto simp: update_conv')
qed

lemma resolve_consistent:
  assumes "consistent st" and "resolve L io st = Inr (v, st')"
  shows "consistent st' \<and> resolved st' = resolved st @ [v] \<and> tensor_name (snd v) = io_name io"
proof (cases "map_of (gs_variables_all st) (io_name io)")
  case (Some w)
  with assms(2) have e: "v = w" "st' = st\<lparr> resolved := resolved st @ [w] \<rparr>"
    by (auto simp: resolve_def)
  have nm: "tensor_name (snd w) = io_name io"
    using assms(1) Some unfolding consistent_def by blast
  have "consistent st'"
    using assms(1) Some e nm unfolding consistent_def by simp
  with e nm show ?thesis by simp
next
  case None
  from assms(2) None have "\<exists>t. store_new (io_name io) t st = (v, st') \<and> tensor_name t = io_name io"
    by (fastforce simp: resolve_def split: option.splits sum.splits bool.splits)
  then obtain t where t: "tensor_name t = io_name io"
    and s: "store_new (io_name io) t st = (v, st')"
    by blast
  from consistent_store_new [OF assms(1) None t s] show ?thesis .
qed

lemma resolve_all_consistent:
  assumes "consistent st" and "resolve_all L ios st = Inr (vs, st')"
  shows "consistent st' \<and> resolved st' = resolved st @ vs
       \<and> map (\<lambda>v. tensor_name (snd v)) vs = map io_name ios"
  using assms
proof (induction ios arbitrary: st vs)
  case Nil
  then show ?case by simp
next
  case (Cons io ios)
  from Cons.prems(2) obtain v st1 ws where
    r: "resolve L io st = Inr (v, st1)" and a: "resolve_all L ios st1 = Inr (ws, st')"
    and vs: "vs = v # ws"
    by (auto split: sum.splits prod.splits)
  from resolve_consistent [OF Cons.prems(1) r] Cons.IH [OF _ a] vs
  show ?case by auto
qed

lemma constant_node_state:
  assumes "constant_node L n outs st = Inr (nd, st')"
  shows "gs_variables_all st' = gs_variables_all st \<and> resolved st' = resolved st
       \<and> n_inputs nd = []"
  using assms
  by (auto simp: constant_node_def Let_def new_object_def
           split: sum.splits list.splits prod.splits)

lemma export_node_consistent:
  assumes "consistent (snd s)" and "export_node L n s = Inr s'"
  shows "consistent (snd s')
       \<and> map (\<lambda>v. tensor_name (snd v)) (resolved (snd s'))
           = map (\<lambda>v. tensor_name (snd v)) (resolved (snd s))
             @ map io_name (onnx_inputs n @ onnx_outputs n)"
proof -
  from assms(2) obtain ins st1 outs st2 where
    i: "resolve_all L (onnx_inputs n) (snd s) = Inr (ins, st1)"
    and out: "resolve_all L (onnx_outputs n) st1 = Inr (outs, st2)"
    by (auto simp: export_node_def split: sum.splits prod.splits)
  note a = resolve_all_consistent [OF assms(1) i]
  note b = resolve_all_consistent [OF conjunct1 [OF a] out]
  have c: "gs_variables_all (snd s') = gs_variables_all st2 \<and> resolved (snd s') = resolved st2"
    using assms(2) i out
    by (auto simp: export_node_def split: if_splits sum.splits prod.splits dest: constant_node_state)
  have "consistent (snd s')"
    using b c unfolding consistent_def by simp
  then show ?thesis using a b c by simp
qed

lemma export_nodes_consistent:
  assumes "consistent (snd s)" and "fold_result (export_node L) ns s = Inr s'"
  shows "consistent (snd s')
       \<and> map (\<lambda>v. tensor_name (snd v)) (resolved (snd s'))
           = map (\<lambda>v. tensor_name (snd v)) (resolved (snd s))
             @ concat (map (\<lambda>n. map io_name (onnx_inputs n @ onnx_outputs n)) ns)"
  using assms
proof (induction ns arbitrary: s)
  case Nil
  then show ?case by simp
next
  case (Cons n ns)
  from Cons.prems(2) obtain s1 where
    e: "export_node L n s = Inr s1" and r: "fold_result (export_node L) ns s1 = Inr s'"
    by (auto split: sum.splits)
  from export_node_consistent [OF Cons.prems(1) e] Cons.IH [OF _ r]
  show ?case by simp
qed

lemma declare_io_consistent:
  assumes "consistent (snd s)" and "resolved (snd s) = []"
  shows "consistent (snd (declare_io n s)) \<and> resolved (snd (declare_io n s)) = []"
  using assms unfolding consistent_def
  by (auto simp: declare_io_def new_object_def update_conv' Let_def)

lemma declare_all_consistent:
  assumes "consistent (snd s)" and "resolved (snd s) = []"
  shows "consistent (snd (fold declare_io ns s)) \<and> resolved (snd (fold declare_io ns s)) = []"
  using assms
  by (induction ns arbitrary: s) (simp_all add: declare_io_consistent)

text \<open>
  Within one export pass the objects that the resolution of the port records of the
  Operator vertices returns (lines 379 to 407), inputs and outputs in order, carry the
  names of those port records, and any two of them with the same name are the same object
  (same address).
\<close>

lemma export_shares_objects:
  assumes "export_pass L g = Inr (ivs, ovs, ns, st)"
  shows "map (\<lambda>v. tensor_name (snd v)) (resolved st)
           = concat (map (\<lambda>n. map io_name (onnx_inputs n @ onnx_outputs n))
                       (get_nodes_by_type g ONNXNode))
       \<and> (\<forall>v \<in> set (resolved st). \<forall>w \<in> set (resolved st).
            tensor_name (snd v) = tensor_name (snd w) \<longrightarrow> v = w)"
proof -
  let ?s0 = "([], \<lparr> gs_variables_all = [], next_id = 0, resolved = [] \<rparr>)"
  let ?s1 = "fold declare_io (get_nodes_by_type g ONNXInput) ?s0"
  let ?s2 = "fold declare_io (get_nodes_by_type g ONNXOutput) ([], snd ?s1)"
  have c0: "consistent (snd ?s0) \<and> resolved (snd ?s0) = []"
    by (simp add: consistent_def)
  have c1: "consistent (snd ?s1) \<and> resolved (snd ?s1) = []"
    using c0 by (intro declare_all_consistent) simp_all
  have c2: "consistent (snd ?s2) \<and> resolved (snd ?s2) = []"
    using c1 by (intro declare_all_consistent) simp_all
  from assms obtain s3 where
    f: "fold_result (export_node L) (get_nodes_by_type g ONNXNode) ([], snd ?s2) = Inr s3"
    and st: "st = snd s3"
    by (auto simp: export_pass_def Let_def split: sum.splits)
  from export_nodes_consistent [OF _ f] c2 st
  have c3: "consistent st" and m: "map (\<lambda>v. tensor_name (snd v)) (resolved st)
           = concat (map (\<lambda>n. map io_name (onnx_inputs n @ onnx_outputs n))
                       (get_nodes_by_type g ONNXNode))"
    by simp_all
  from c3 have "\<forall>v \<in> set (resolved st). \<forall>w \<in> set (resolved st).
            tensor_name (snd v) = tensor_name (snd w) \<longrightarrow> v = w"
    unfolding consistent_def by (metis option.inject)
  with m show ?thesis by simp
qed

text \<open>In the chain the name \<open>b\<close> is resolved twice, to one object.\<close>

lemma export_shares_objects_chain:
  "map (\<lambda>v. tensor_name (snd v))
       (resolved (snd (snd (snd (projr (export_pass example_libs (imported chain_onnx)))))))
     = [''a'', ''b'', ''b'', ''c'']
   \<and> resolved (snd (snd (snd (projr (export_pass example_libs (imported chain_onnx)))))) ! 1
     = resolved (snd (snd (snd (projr (export_pass example_libs (imported chain_onnx)))))) ! 2"
proof -
  let ?r = "projr (export_pass example_libs (imported chain_onnx))"
  let ?st = "snd (snd (snd ?r))"
  have h: "export_pass example_libs (imported chain_onnx)
             = Inr (fst ?r, fst (snd ?r), fst (snd (snd ?r)), ?st)"
    by code_simp
  have l: "length (resolved ?st) = 4" by code_simp
  have n: "tensor_name (snd (resolved ?st ! 1)) = tensor_name (snd (resolved ?st ! 2))"
    by code_simp
  have c: "concat (map (\<lambda>n. map io_name (onnx_inputs n @ onnx_outputs n))
             (get_nodes_by_type (imported chain_onnx) ONNXNode)) = [''a'', ''b'', ''b'', ''c'']"
    by code_simp
  note t = export_shares_objects [OF h]
  have m1: "resolved ?st ! 1 \<in> set (resolved ?st)" and m2: "resolved ?st ! 2 \<in> set (resolved ?st)"
    using l by simp_all
  from t m1 m2 n have "resolved ?st ! 1 = resolved ?st ! 2" by blast
  with t c show ?thesis by simp
qed

text \<open>The record of an ordinary operator holds the very objects the resolution has
  returned (lines 414 to 420).\<close>

lemma ordinary_record_holds_resolved_objects:
  assumes "consistent (snd s)" and "export_node L n s = Inr s'"
    and "op n \<notin> set [''Constant'', ''ConstantOfShape'']"
  shows "\<exists>r. fst s' = fst s @ [r]
           \<and> resolved (snd s') = resolved (snd s) @ n_inputs r @ n_outputs r"
proof -
  from assms(2) obtain ins st1 outs st2 where
    i: "resolve_all L (onnx_inputs n) (snd s) = Inr (ins, st1)"
    and out: "resolve_all L (onnx_outputs n) st1 = Inr (outs, st2)"
    by (auto simp: export_node_def split: sum.splits prod.splits)
  note a = resolve_all_consistent [OF assms(1) i]
  note b = resolve_all_consistent [OF conjunct1 [OF a] out]
  from assms(2,3) i out have "s' = (fst s @ [\<lparr> n_op = op n, n_name = node_name n,
      n_attrs = attrs n, n_inputs = ins, n_outputs = outs \<rparr>], st2)"
    by (simp add: export_node_def)
  with a b show ?thesis by simp
qed

text \<open>The record of a \<^verbatim>\<open>Constant\<close> or \<^verbatim>\<open>ConstantOfShape\<close> vertex is read back from a
  one-node model (lines 464 to 472): its output is a new object, with the name of the
  first resolved output, that is not filed in \<^verbatim>\<open>gs_variables_all\<close>.\<close>

lemma constant_node_output_is_new:
  assumes "constant_node L n outs st = Inr (nd, st')"
  shows "\<exists>t. n_outputs nd = [(next_id st, t)] \<and> tensor_name t = tensor_name (snd (hd outs))
           \<and> gs_variables_all st' = gs_variables_all st \<and> next_id st' = Suc (next_id st)"
  using assms
  by (auto simp: constant_node_def Let_def new_object_def
           split: sum.splits list.splits prod.splits)

text \<open>
  Claim C2. Within one export pass every occurrence of a tensor name in the input and
  output lists of the operator records is meant to be one shared object. In the model
  \<open>Constant \<rightarrow> c \<rightarrow> Relu \<rightarrow> y\<close> the tensor \<open>c\<close> is one object, written by the \<^verbatim>\<open>Constant\<close>
  operator and read by the \<^verbatim>\<open>Relu\<close> operator. In the export of the graph imported from it
  the record of \<^verbatim>\<open>Constant\<close> writes an object \<open>c\<close> at address 2 and the record of \<^verbatim>\<open>Relu\<close>
  reads an object \<open>c\<close> at address 1: two objects for one name.
\<close>

theorem constant_record_output_not_shared:
  "record_objects const_relu_onnx
     = [(''Constant'', [], [(0, ''c'')]), (''Relu'', [(0, ''c'')], [(1, ''y'')])]
   \<and> (case NodeGraphtoONNX example_libs (imported const_relu_onnx) of
         Inl e \<Rightarrow> None
       | Inr G \<Rightarrow> Some (record_objects G))
       = Some [(''Constant'', [], [(2, ''c'')]), (''Relu'', [(1, ''c'')], [(0, ''y'')])]"
  by code_simp


subsection \<open>Locking of ports\<close>

lemma appended_refl: "appended Q c c"
  by (simp add: appended_def)

lemma appended_trans: "appended Q a b \<Longrightarrow> appended Q b c \<Longrightarrow> appended Q a c"
  by (auto simp: appended_def)

lemma appended_one: "Q e \<Longrightarrow> appended Q c (c @ [e])"
  by (simp add: appended_def)

lemma grows_refl: "grows n n"
  by (simp add: grows_def list_all2_refl)

lemma imp_all2_trans:
  "list_all2 (\<lambda>a b. a \<longrightarrow> b) xs ys \<Longrightarrow> list_all2 (\<lambda>a b. a \<longrightarrow> b) ys zs
     \<Longrightarrow> list_all2 (\<lambda>a b. a \<longrightarrow> b) xs zs"
  by (simp add: list_all2_conv_all_nth)

lemma grows_trans: "grows a b \<Longrightarrow> grows b c \<Longrightarrow> grows a c"
  by (cases a; cases b; cases c) (auto simp: grows_def intro: imp_all2_trans)

lemma grows_fields:
  assumes "grows n n'"
  shows "op n' = op n"
    and "length (input_ports n') = length (input_ports n)"
    and "length (output_ports n') = length (output_ports n)"
  using assms
  by (cases n; cases n'; simp add: grows_def list_all2_conv_all_nth)+

lemma grows_locked:
  assumes "grows n n'"
  shows "i < length (input_ports n) \<Longrightarrow> input_ports n ! i \<Longrightarrow> input_ports n' ! i"
    and "i < length (output_ports n) \<Longrightarrow> output_ports n ! i \<Longrightarrow> output_ports n' ! i"
  using assms by (simp_all add: grows_def list_all2_conv_all_nth)

lemma locks_grow_refl: "locks_grow g g"
  by (simp add: locks_grow_def list_all2_refl grows_refl)

lemma locks_grow_pipes: "locks_grow g h \<Longrightarrow> pipes h = pipes g"
  by (cases g; cases h) (simp add: locks_grow_def)

lemma locks_grow_trans:
  assumes "locks_grow a b" and "locks_grow b c"
  shows "locks_grow a c"
proof -
  have l: "length (nodes a) = length (nodes b)" "length (nodes b) = length (nodes c)"
    using assms by (simp_all add: locks_grow_def list_all2_conv_all_nth)
  have "grows (nodes a ! i) (nodes c ! i)" if "i < length (nodes a)" for i
    using that assms l grows_trans [of "nodes a ! i" "nodes b ! i" "nodes c ! i"]
    by (simp add: locks_grow_def list_all2_conv_all_nth)
  then have n: "list_all2 grows (nodes a) (nodes c)"
    using l by (simp add: list_all2_conv_all_nth)
  have "c = a\<lparr> nodes := nodes c, calls := calls c \<rparr>"
    using assms by (cases a; cases b; cases c) (simp add: locks_grow_def)
  with n show ?thesis by (simp add: locks_grow_def)
qed

lemma update_True_mono: "list_all2 (\<lambda>a b. a \<longrightarrow> b) xs (xs[i := True])"
  by (cases "i < length xs") (simp_all add: list_all2_conv_all_nth nth_list_update list_all2_refl)

lemma list_update_grows:
  assumes "n < length xs \<Longrightarrow> grows (xs ! n) y"
  shows "list_all2 grows xs (xs[n := y])"
proof -
  have "grows (xs ! i) (xs[n := y] ! i)" if "i < length xs" for i
    using that assms by (cases "i = n") (simp_all add: grows_refl)
  then show ?thesis by (simp add: list_all2_conv_all_nth)
qed

lemma lock_port_grows: "locks_grow g (lock_port p g)"
  by (cases p)
     (auto simp: lock_port_def update_node_def locks_grow_def grows_def list_all2_refl
           update_True_mono intro!: list_update_grows)

lemma lock_port_calls: "calls (lock_port p g) = calls g @ [PortLocked p]"
  by (cases p) (simp_all add: lock_port_def update_node_def)

lemma lock_port_sets: "valid_port g p \<Longrightarrow> port_is_locked (lock_port p g) p"
  by (cases p) (auto simp: lock_port_def update_node_def)

lemma locks_grow_nth:
  assumes "locks_grow g h" and "n < length (nodes g)"
  shows "n < length (nodes h) \<and> grows (nodes g ! n) (nodes h ! n)"
  using assms by (auto simp: locks_grow_def list_all2_conv_all_nth)

lemma locks_grow_length: "locks_grow g h \<Longrightarrow> length (nodes h) = length (nodes g)"
  by (auto simp: locks_grow_def dest: list_all2_lengthD)

lemma locks_grow_ports_of:
  assumes "locks_grow g h" and "n < length (nodes g)"
  shows "ports_of h n = ports_of g n"
proof -
  from locks_grow_nth [OF assms] have g: "grows (nodes g ! n) (nodes h ! n)" by simp
  from grows_fields(2,3) [OF g] show ?thesis by (simp add: ports_of_def)
qed

lemma locks_grow_valid:
  assumes "locks_grow g h"
  shows "valid_port h p = valid_port g p"
proof (cases p)
  case (InPort n i)
  show ?thesis
  proof (cases "n < length (nodes g)")
    case True
    from grows_fields(2) [OF conjunct2 [OF locks_grow_nth [OF assms True]]]
    show ?thesis using InPort locks_grow_length [OF assms] by simp
  next
    case False
    then show ?thesis using InPort locks_grow_length [OF assms] by simp
  qed
next
  case (OutPort n i)
  show ?thesis
  proof (cases "n < length (nodes g)")
    case True
    from grows_fields(3) [OF conjunct2 [OF locks_grow_nth [OF assms True]]]
    show ?thesis using OutPort locks_grow_length [OF assms] by simp
  next
    case False
    then show ?thesis using OutPort locks_grow_length [OF assms] by simp
  qed
qed

lemma locks_grow_keeps:
  assumes "locks_grow g h" and "port_is_locked g p"
  shows "port_is_locked h p"
proof -
  have v: "valid_port h p"
    using assms(2) locks_grow_valid [OF assms(1), of p] by (cases p) simp_all
  show ?thesis
  proof (cases p)
    case (InPort n i)
    with assms(2) have n: "n < length (nodes g)" and l: "input_ports (nodes g ! n) ! i"
      and i: "i < length (input_ports (nodes g ! n))" by simp_all
    from locks_grow_nth [OF assms(1) n] have "grows (nodes g ! n) (nodes h ! n)" by simp
    from grows_locked(1) [OF this i l] v InPort show ?thesis by simp
  next
    case (OutPort n i)
    with assms(2) have n: "n < length (nodes g)" and l: "output_ports (nodes g ! n) ! i"
      and i: "i < length (output_ports (nodes g ! n))" by simp_all
    from locks_grow_nth [OF assms(1) n] have "grows (nodes g ! n) (nodes h ! n)" by simp
    from grows_locked(2) [OF this i l] v OutPort show ?thesis by simp
  qed
qed

lemma locks_grow_connected: "locks_grow g h \<Longrightarrow> connected_ports h p = connected_ports g p"
  using locks_grow_pipes [of g h] by (cases p) (simp_all add: connected_ports_def)

lemma fold_lock_port: "locks_grow g (fold lock_port ps g)"
proof (induction ps arbitrary: g)
  case Nil
  show ?case by (simp add: locks_grow_refl)
next
  case (Cons p ps)
  from locks_grow_trans [OF lock_port_grows [of g p] Cons [of "lock_port p g"]]
  show ?case by simp
qed

lemma fold_lock_port_calls: "calls (fold lock_port ps g) = calls g @ map PortLocked ps"
  by (induction ps arbitrary: g) (simp_all add: lock_port_calls)

text \<open>One call of \<^verbatim>\<open>set_locked\<close> changes locked flags only, logs the locking of the port
  and of the ports connected to it, and leaves the port locked.\<close>

lemma set_locked_facts:
  "locks_grow g (set_locked p g)
   \<and> calls (set_locked p g) = calls g @ map PortLocked (p # connected_ports g p)
   \<and> (valid_port g p \<longrightarrow> port_is_locked (set_locked p g) p)"
proof -
  let ?h = "lock_port p g"
  note f = fold_lock_port [of ?h "connected_ports g p"]
  have e: "set_locked p g = fold lock_port (connected_ports g p) ?h"
    by (simp add: set_locked_def)
  have k: "valid_port g p \<Longrightarrow> port_is_locked (set_locked p g) p"
    using locks_grow_keeps [OF f lock_port_sets [of g p]] e by simp
  have l: "locks_grow g (set_locked p g)"
    using locks_grow_trans [OF lock_port_grows [of g p] f] e by simp
  have c: "calls (set_locked p g) = calls g @ map PortLocked (p # connected_ports g p)"
    by (simp add: e fold_lock_port_calls lock_port_calls)
  show ?thesis using k l c by simp
qed

lemma fold_set_locked:
  assumes "\<forall>p \<in> set ps. valid_port g p"
  shows "locks_grow g (fold set_locked ps g)
       \<and> calls (fold set_locked ps g)
           = calls g @ map PortLocked (concat (map (\<lambda>p. p # connected_ports g p) ps))
       \<and> (\<forall>p \<in> set ps. port_is_locked (fold set_locked ps g) p)"
  using assms
proof (induction ps arbitrary: g)
  case Nil
  show ?case by (simp add: locks_grow_refl)
next
  case (Cons p ps)
  let ?h = "set_locked p g"
  note s = set_locked_facts [of g p]
  have sg: "locks_grow g ?h" using s by simp
  have v: "\<forall>q \<in> set ps. valid_port ?h q"
    using Cons.prems locks_grow_valid [OF sg] by simp
  note ih = Cons.IH [OF v]
  have ig: "locks_grow ?h (fold set_locked ps ?h)" using ih by simp
  have l: "locks_grow g (fold set_locked (p # ps) g)"
    using locks_grow_trans [OF sg ig] by simp
  have cp: "connected_ports ?h q = connected_ports g q" for q
    by (rule locks_grow_connected [OF sg])
  have c: "calls (fold set_locked (p # ps) g)
             = calls g @ map PortLocked (concat (map (\<lambda>p. p # connected_ports g p) (p # ps)))"
    using s ih by (simp add: cp)
  have "port_is_locked ?h p" using s Cons.prems by simp
  from locks_grow_keeps [OF ig this]
  have k: "port_is_locked (fold set_locked (p # ps) g) p" by simp
  show ?case using l c k ih by simp
qed

lemma lock_node_fold:
  assumes "n < length (nodes g)"
  shows "lock_node n g = fold set_locked (ports_of g n) g"
proof -
  let ?ins = "map (InPort n) [0 ..< length (input_ports (nodes g ! n))]"
  let ?g1 = "fold (\<lambda>i. set_locked (InPort n i)) [0 ..< length (input_ports (nodes g ! n))] g"
  have e: "fold set_locked ?ins g = ?g1"
    by (simp add: fold_map comp_def)
  have "\<forall>p \<in> set ?ins. valid_port g p" using assms by auto
  from fold_set_locked [OF this] have "locks_grow g (fold set_locked ?ins g)" by blast
  then have "locks_grow g ?g1" unfolding e .
  from locks_grow_nth [OF this assms]
  have "grows (nodes g ! n) (nodes ?g1 ! n)" by simp
  from grows_fields(3) [OF this]
  have len: "length (output_ports (nodes ?g1 ! n)) = length (output_ports (nodes g ! n))" .
  show ?thesis
    by (simp add: lock_node_def Let_def len ports_of_def fold_map comp_def)
qed

lemma ports_of_valid: "n < length (nodes g) \<Longrightarrow> \<forall>p \<in> set (ports_of g n). valid_port g p"
  by (auto simp: ports_of_def)

lemma fold_lock_node:
  assumes "locks_grow g h" and "\<forall>n \<in> set ns. n < length (nodes g)"
  shows "fold lock_node ns h = fold set_locked (concat (map (ports_of g) ns)) h"
  using assms
proof (induction ns arbitrary: h)
  case Nil
  show ?case by simp
next
  case (Cons n ns)
  have n: "n < length (nodes g)" "n < length (nodes h)"
    using Cons.prems locks_grow_length by auto
  have p: "ports_of h n = ports_of g n"
    using locks_grow_ports_of [OF Cons.prems(1)] n by simp
  have l: "lock_node n h = fold set_locked (ports_of g n) h"
    using lock_node_fold [OF n(2)] p by simp
  have v: "\<forall>q \<in> set (ports_of g n). valid_port h q"
    using ports_of_valid [OF n(2)] p by simp
  have "locks_grow h (lock_node n h)"
    using fold_set_locked [OF v] l by simp
  with Cons.prems(1) have "locks_grow g (lock_node n h)"
    by (rule locks_grow_trans)
  from Cons.IH [OF this] Cons.prems(2) l show ?case by simp
qed

text \<open>The locking loop changes locked flags only, makes exactly the calls \<open>lock_calls\<close>
  and leaves every port locked.\<close>

lemma lock_all_facts:
  "locks_grow g (lock_all g)
   \<and> calls (lock_all g) = calls g @ lock_calls g
   \<and> list_all all_locked (nodes (lock_all g))"
proof -
  let ?ps = "all_ports g"
  have e: "lock_all g = fold set_locked ?ps g"
    unfolding lock_all_def all_ports_def
    by (rule fold_lock_node) (simp_all add: locks_grow_refl)
  have v: "\<forall>p \<in> set ?ps. valid_port g p"
    using ports_of_valid by (auto simp: all_ports_def)
  note f = fold_set_locked [OF v, folded e]
  have g: "locks_grow g (lock_all g)" using f by simp
  have c: "calls (lock_all g) = calls g @ lock_calls g"
    using f by (simp add: lock_calls_def)
  have "all_locked (nodes (lock_all g) ! n)" if n: "n < length (nodes (lock_all g))" for n
  proof -
    have n': "n < length (nodes g)" using n locks_grow_length [OF g] by simp
    have po: "ports_of (lock_all g) n = ports_of g n"
      by (rule locks_grow_ports_of [OF g n'])
    have "set (ports_of g n) \<subseteq> set ?ps" using n' by (auto simp: all_ports_def)
    then have a: "\<forall>p \<in> set (ports_of (lock_all g) n). port_is_locked (lock_all g) p"
      using f po by auto
    have "input_ports (nodes (lock_all g) ! n) ! i"
      if "i < length (input_ports (nodes (lock_all g) ! n))" for i
    proof -
      have "InPort n i \<in> set (ports_of (lock_all g) n)"
        using that by (simp add: ports_of_def)
      with a have "port_is_locked (lock_all g) (InPort n i)" by blast
      then show ?thesis by simp
    qed
    moreover have "output_ports (nodes (lock_all g) ! n) ! i"
      if "i < length (output_ports (nodes (lock_all g) ! n))" for i
    proof -
      have "OutPort n i \<in> set (ports_of (lock_all g) n)"
        using that by (simp add: ports_of_def)
      with a have "port_is_locked (lock_all g) (OutPort n i)" by blast
      then show ?thesis by simp
    qed
    ultimately show ?thesis
      by (simp add: all_locked_def list_all_length)
  qed
  then have "list_all all_locked (nodes (lock_all g))"
    by (simp add: list_all_length)
  with g c show ?thesis by simp
qed


subsection \<open>Creation and wiring\<close>

lemma creates_refl: "creates g g"
  by (simp add: creates_def appended_refl)

lemma creates_trans:
  assumes "creates a b" and "creates b c"
  shows "creates a c"
proof -
  from assms obtain ns ms where "nodes b = nodes a @ ns" "list_all sealed ns" "list_all has_port ns"
    "nodes c = nodes b @ ms" "list_all sealed ms" "list_all has_port ms"
    unfolding creates_def by blast
  then have "nodes c = nodes a @ (ns @ ms) \<and> list_all sealed (ns @ ms)
      \<and> list_all has_port (ns @ ms)" by simp
  then have "\<exists>ks. nodes c = nodes a @ ks \<and> list_all sealed ks \<and> list_all has_port ks" by blast
  moreover have "appended (\<lambda>e. \<not> is_lock_call e) (calls a) (calls c)"
    using assms appended_trans unfolding creates_def by blast
  ultimately show ?thesis by (simp add: creates_def)
qed

lemma fold_result_rel:
  assumes step: "\<And>x a b. f x a = Inr b \<Longrightarrow> R a b"
    and refl: "\<And>a. R a a"
    and trans: "\<And>a b c. R a b \<Longrightarrow> R b c \<Longrightarrow> R a c"
    and "fold_result f xs s = Inr s'"
  shows "R s s'"
  using assms(4)
proof (induction xs arbitrary: s)
  case Nil
  then show ?case by (simp add: refl)
next
  case (Cons x xs)
  from Cons.prems obtain s1 where a: "f x s = Inr s1" and b: "fold_result f xs s1 = Inr s'"
    by (auto split: sum.splits)
  from trans [OF step [OF a] Cons.IH [OF b]] show ?case .
qed

lemma creates_one:
  assumes "nodes g' = nodes g @ [n]" and "sealed n" and "has_port n"
    and "calls g' = calls g @ [NodeCreated i]"
  shows "creates g g'"
  using assms by (auto simp: creates_def appended_def)

lemma create_qtinput_creates:
  assumes "create_qtinput uniq G t g = Inr (i, g')"
  shows "creates g g'"
proof -
  from assms have "nodes g' = nodes g @ [nodes g' ! length (nodes g)]
      \<and> op (nodes g' ! length (nodes g)) = []
      \<and> output_ports (nodes g' ! length (nodes g)) = [False]
      \<and> calls g' = calls g @ [NodeCreated (length (nodes g))]"
    by (auto simp: create_qtinput_def create_node_def update_node_def new_node_def Let_def
             split: sum.splits)
  then show ?thesis
    by (intro creates_one [where i = "length (nodes g)" and n = "nodes g' ! length (nodes g)"])
       (simp_all add: sealed_def has_port_def)
qed

lemma create_qtoutput_creates:
  assumes "create_qtoutput uniq G t g = Inr (i, g')"
  shows "creates g g'"
proof -
  from assms have "nodes g' = nodes g @ [nodes g' ! length (nodes g)]
      \<and> op (nodes g' ! length (nodes g)) = []
      \<and> input_ports (nodes g' ! length (nodes g)) = [False]
      \<and> calls g' = calls g @ [NodeCreated (length (nodes g))]"
    by (auto simp: create_qtoutput_def create_node_def update_node_def new_node_def Let_def
             split: sum.splits)
  then show ?thesis
    by (intro creates_one [where i = "length (nodes g)" and n = "nodes g' ! length (nodes g)"])
       (simp_all add: sealed_def has_port_def)
qed

lemma delete_input_first:
  assumes "delete_input 0 n = Inr n'" and "input_ports n = [b]"
  shows "input_ports n' = [] \<and> op n' = op n"
  using assms by (auto simp: delete_input_def split: if_splits)

lemma fill_qtnode_ports:
  assumes "fill_qtnode nd (new_node ONNXNode nm) = Inr n"
  shows "op n = n_op nd
       \<and> (n_op nd = ''Constant'' \<longrightarrow> length (input_ports n) = 0)
       \<and> (n_op nd \<noteq> ''Constant'' \<longrightarrow> length (input_ports n) = 1)
       \<and> length (output_ports n) = 1"
  using assms
  by (auto simp: fill_qtnode_def new_node_def Let_def delete_input_def
           split: sum.splits if_splits)

lemma create_qtnode_creates:
  assumes "create_qtnode uniq nd g = Inr (i, g')"
  shows "creates g g'"
proof -
  from assms obtain n where f: "fill_qtnode nd (new_node ONNXNode (uniq (map qt_name (nodes g)) (n_name nd))) = Inr n"
    and g': "nodes g' = nodes g @ [n]" "calls g' = calls g @ [NodeCreated (length (nodes g))]"
    by (auto simp: create_qtnode_def create_node_def update_node_def Let_def split: sum.splits)
  from fill_qtnode_ports [OF f] have "sealed n" and "has_port n"
    by (simp_all add: sealed_def has_port_def)
  with g' show ?thesis by (intro creates_one [where i = "length (nodes g)" and n = n]) simp_all
qed

lemma connect_to_creates:
  assumes "connect_to src dst g = Inr g'"
  shows "creates g g'"
  using assms
  by (auto simp: connect_to_def creates_def appended_def split: if_splits)

lemma connect_names_creates:
  assumes "connect_names A a B b g = Inr g'"
  shows "creates g g'"
  using assms
  by (auto simp: connect_names_def split: sum.splits dest: connect_to_creates)

lemma fold_connect_creates:
  assumes "\<And>x a b. f x a = Inr b \<Longrightarrow> creates a b" and "fold_result f xs g = Inr g'"
  shows "creates g g'"
  by (rule fold_result_rel [where R = creates and f = f, OF assms(1) creates_refl creates_trans assms(2)])

lemma connect_key_creates:
  assumes "connect_key io_nodes op_nodes ins outs kv g = Inr g'"
  shows "creates g g'"
proof -
  let ?key = "fst kv" and ?ni = "fst (snd kv)" and ?no = "snd (snd kv)"
  from assms obtain g1 g2 where
    1: "(if ?key \<in> set ins
         then fold_result (\<lambda>inp. connect_names io_nodes ?key op_nodes inp) ?ni g
         else Inr g) = Inr g1"
    and 2: "(if ?key \<in> set outs
         then fold_result (\<lambda>out. connect_names op_nodes out io_nodes ?key) ?no g1
         else Inr g1) = Inr g2"
    and 3: "fold_result
               (\<lambda>inp. fold_result (\<lambda>out. connect_names op_nodes out op_nodes inp) ?no)
               ?ni g2 = Inr g'"
    by (auto simp: connect_key_def Let_def split: sum.splits)
  have c1: "creates g g1"
    using 1 by (auto split: if_splits intro: creates_refl
                  elim: fold_connect_creates [rotated] dest: connect_names_creates)
  have c2: "creates g1 g2"
    using 2 by (auto split: if_splits intro: creates_refl
                  elim: fold_connect_creates [rotated] dest: connect_names_creates)
  have inner: "creates a b"
    if "fold_result (\<lambda>out. connect_names op_nodes out op_nodes inp) ?no a = Inr b" for inp a b
    using that by (rule fold_connect_creates [rotated]) (rule connect_names_creates)
  have c3: "creates g2 g'"
    using 3 by (rule fold_connect_creates [rotated]) (rule inner)
  from creates_trans [OF creates_trans [OF c1 c2] c3] show ?thesis .
qed

lemma wire_nodes_creates:
  assumes "wire_nodes G io_nodes op_nodes g = Inr g'"
  shows "creates g g'"
  using assms unfolding wire_nodes_def Let_def
  by (rule fold_connect_creates [rotated]) (rule connect_key_creates)

lemma add_io_creates:
  assumes "\<And>t g r. mk t g = Inr r \<Longrightarrow> creates g (snd r)" and "add_io mk t s = Inr s'"
  shows "creates (snd s) (snd s')"
proof (cases "mk t (snd s)")
  case (Inl e)
  with assms(2) show ?thesis by (simp add: add_io_def)
next
  case (Inr r)
  with assms(2) have "snd s' = snd r" by (auto simp: add_io_def)
  with assms(1) [OF Inr] show ?thesis by simp
qed

lemma fold_result_creates:
  assumes "\<And>x a b. f x a = Inr b \<Longrightarrow> creates (snd a) (snd b)"
    and "fold_result f xs s = Inr s'"
  shows "creates (snd s) (snd s')"
  using assms(2)
proof (induction xs arbitrary: s)
  case Nil
  then show ?case by (simp add: creates_refl)
next
  case (Cons x xs)
  from Cons.prems obtain s1 where a: "f x s = Inr s1" and b: "fold_result f xs s1 = Inr s'"
    by (auto split: sum.splits)
  from creates_trans [OF assms(1) [OF a] Cons.IH [OF b]] show ?case .
qed

lemma add_qtnode_creates:
  assumes "add_qtnode uniq nd s = Inr s'"
  shows "creates (snd s) (snd s')"
  using assms
  by (cases "create_qtnode uniq nd (snd s)")
     (auto simp: add_qtnode_def dest: create_qtnode_creates)

lemma create_and_connect_creates:
  assumes "create_and_connect uniq G g0 = Inr g4"
  shows "creates g0 g4"
proof -
  from assms obtain s1 s2 s3 where
    1: "fold_result (add_io (create_qtinput uniq G)) (gs_inputs G) ([], g0) = Inr s1"
    and 2: "fold_result (add_io (create_qtoutput uniq G)) (gs_outputs G) s1 = Inr s2"
    and 3: "fold_result (add_qtnode uniq) (gs_nodes G) ([], snd s2) = Inr s3"
    and 4: "wire_nodes G (fst s2) (fst s3) (snd s3) = Inr g4"
    by (auto simp: create_and_connect_def split: sum.splits)
  have qi: "creates g (snd r)" if "create_qtinput uniq G t g = Inr r" for t g r
    using that create_qtinput_creates [of uniq G t g "fst r" "snd r"] by simp
  have qo: "creates g (snd r)" if "create_qtoutput uniq G t g = Inr r" for t g r
    using that create_qtoutput_creates [of uniq G t g "fst r" "snd r"] by simp
  have c1: "creates g0 (snd s1)"
    using fold_result_creates [OF add_io_creates [OF qi] 1] by simp
  have c2: "creates (snd s1) (snd s2)"
    using fold_result_creates [OF add_io_creates [OF qo] 2] by simp
  have c3: "creates (snd s2) (snd s3)"
    using fold_result_creates [OF add_qtnode_creates 3] by simp
  have c4: "creates (snd s3) g4" using 4 by (rule wire_nodes_creates)
  show "creates g0 g4"
    using creates_trans [OF creates_trans [OF creates_trans [OF c1 c2] c3] c4] .
qed

lemma import_steps:
  assumes "ONNXtoNodeGraph uniq G g0 = Inr g"
  shows "\<exists>g4. create_and_connect uniq G g0 = Inr g4 \<and> g = lock_all g4"
  using assms by (auto simp: ONNXtoNodeGraph_def split: sum.splits)


subsection \<open>Ports after import\<close>

text \<open>
  Claim C5. When the import returns the graph \<open>g\<close>, the creation of the vertices and all
  the connections have given a graph \<open>g4\<close> (lines 505 to 562) such that: the calls made up
  to \<open>g4\<close> lock nothing; every vertex added has at least one port; \<open>g\<close> is \<open>g4\<close> with
  locked flags set and calls logged, and nothing else changed (the same vertices with the
  same ports, the same pipes); the calls made after \<open>g4\<close> are exactly the locking calls of
  the loop of lines 564 to 568, one on every port of every vertex, each followed by the
  calls on the ports connected to it; and every input port and every output port of every
  vertex of \<open>g\<close> is locked. So all the connections are made before the first lock, and no
  port is left unlocked.
\<close>

theorem import_locks_all_ports:
  assumes "ONNXtoNodeGraph uniq G g0 = Inr g"
  shows "\<exists>g4 ws ns.
           create_and_connect uniq G g0 = Inr g4
         \<and> calls g4 = calls g0 @ ws \<and> list_all (\<lambda>e. \<not> is_lock_call e) ws
         \<and> nodes g4 = nodes g0 @ ns \<and> list_all has_port ns
         \<and> locks_grow g4 g
         \<and> calls g = calls g4 @ lock_calls g4
         \<and> list_all all_locked (nodes g)"
proof -
  from import_steps [OF assms] obtain g4 where
    c: "create_and_connect uniq G g0 = Inr g4" and g: "g = lock_all g4"
    by blast
  from create_and_connect_creates [OF c] obtain ws ns where
    ws: "calls g4 = calls g0 @ ws" "list_all (\<lambda>e. \<not> is_lock_call e) ws"
    and ns: "nodes g4 = nodes g0 @ ns" "list_all has_port ns"
    unfolding creates_def appended_def by blast
  from lock_all_facts [of g4] g have
    l: "locks_grow g4 g" "calls g = calls g4 @ lock_calls g4" "list_all all_locked (nodes g)"
    by simp_all
  from c ws ns l show ?thesis by blast
qed

text \<open>The import of \<open>x \<rightarrow> Relu \<rightarrow> y\<close> into the empty graph: the Input vertex with its
  output port, the Output vertex with its input port and the Operator vertex with one port
  of each kind; two connections; then the locking calls on the four ports, each with the
  port at the other end of its pipe.\<close>

theorem import_locks_all_ports_witness:
  "(case create_and_connect example_unique_name relu_onnx new_graph of
      Inl e \<Rightarrow> None
    | Inr g4 \<Rightarrow> Some (map (\<lambda>n. (input_ports n, output_ports n)) (nodes g4), pipes g4, calls g4))
     = Some ([([], [False]), ([False], []), ([False], [False])],
             [((0, 0), (2, 0)), ((2, 0), (1, 0))],
             [NodeCreated 0, NodeCreated 1, NodeCreated 2,
              Connected (0, 0) (2, 0), Connected (2, 0) (1, 0)])
   \<and> map (\<lambda>n. (input_ports n, output_ports n)) (nodes (imported relu_onnx))
       = [([], [True]), ([True], []), ([True], [True])]
   \<and> pipes (imported relu_onnx) = [((0, 0), (2, 0)), ((2, 0), (1, 0))]
   \<and> calls (imported relu_onnx)
       = [NodeCreated 0, NodeCreated 1, NodeCreated 2,
          Connected (0, 0) (2, 0), Connected (2, 0) (1, 0),
          PortLocked (OutPort 0 0), PortLocked (InPort 2 0),
          PortLocked (InPort 1 0), PortLocked (OutPort 2 0),
          PortLocked (InPort 2 0), PortLocked (OutPort 0 0),
          PortLocked (OutPort 2 0), PortLocked (InPort 1 0)]
   \<and> list_all all_locked (nodes (imported relu_onnx))"
proof -
  have h: "ONNXtoNodeGraph example_unique_name relu_onnx new_graph = Inr (imported relu_onnx)"
    by code_simp
  have 1: "(case create_and_connect example_unique_name relu_onnx new_graph of
      Inl e \<Rightarrow> None
    | Inr g4 \<Rightarrow> Some (map (\<lambda>n. (input_ports n, output_ports n)) (nodes g4), pipes g4, calls g4))
     = Some ([([], [False]), ([False], []), ([False], [False])],
             [((0, 0), (2, 0)), ((2, 0), (1, 0))],
             [NodeCreated 0, NodeCreated 1, NodeCreated 2,
              Connected (0, 0) (2, 0), Connected (2, 0) (1, 0)])"
    by code_simp
  have 2: "map (\<lambda>n. (input_ports n, output_ports n)) (nodes (imported relu_onnx))
       = [([], [True]), ([True], []), ([True], [True])]"
    by code_simp
  have 3: "pipes (imported relu_onnx) = [((0, 0), (2, 0)), ((2, 0), (1, 0))]"
    by code_simp
  have 4: "calls (imported relu_onnx)
       = [NodeCreated 0, NodeCreated 1, NodeCreated 2,
          Connected (0, 0) (2, 0), Connected (2, 0) (1, 0),
          PortLocked (OutPort 0 0), PortLocked (InPort 2 0),
          PortLocked (InPort 1 0), PortLocked (OutPort 2 0),
          PortLocked (InPort 2 0), PortLocked (OutPort 0 0),
          PortLocked (OutPort 2 0), PortLocked (InPort 1 0)]"
    by code_simp
  from import_locks_all_ports [OF h] have "list_all all_locked (nodes (imported relu_onnx))"
    by blast
  with 1 2 3 4 show ?thesis by simp
qed

lemma locks_grow_sealed:
  assumes "locks_grow g h" and "list_all sealed (nodes g)"
  shows "list_all sealed (nodes h)"
proof -
  have "sealed (nodes h ! i)" if "i < length (nodes h)" for i
  proof -
    have i: "i < length (nodes g)" using that locks_grow_length [OF assms(1)] by simp
    from locks_grow_nth [OF assms(1) i] have g: "grows (nodes g ! i) (nodes h ! i)" by simp
    from assms(2) i have "sealed (nodes g ! i)" by (simp add: list_all_length)
    with grows_fields(1,2) [OF g] show ?thesis by (simp add: sealed_def)
  qed
  then show ?thesis by (simp add: list_all_length)
qed

lemma constant_node_op:
  assumes "constant_node L n outs st = Inr (nd, st')"
  shows "n_op nd = op n \<and> n_inputs nd = []"
  using assms
  by (auto simp: constant_node_def Let_def new_object_def
           split: sum.splits list.splits prod.splits)

text \<open>
  Claim C6, amended. After an import every vertex of operator type \<^verbatim>\<open>Constant\<close> has no
  input port (given that the vertices already in the graph had none), and the operator
  record that the export builds for a vertex of operator type \<^verbatim>\<open>Constant\<close> has the
  operator type \<^verbatim>\<open>Constant\<close> and an empty list of inputs.
\<close>

theorem constant_has_no_input_port:
  "(ONNXtoNodeGraph uniq G g0 = Inr g \<longrightarrow> list_all sealed (nodes g0) \<longrightarrow>
      list_all sealed (nodes g))
   \<and> (export_node L n s = Inr s' \<longrightarrow> op n = ''Constant'' \<longrightarrow>
        (\<exists>r. fst s' = fst s @ [r] \<and> n_op r = ''Constant'' \<and> n_inputs r = []))"
proof (intro conjI impI)
  assume a: "ONNXtoNodeGraph uniq G g0 = Inr g" and s: "list_all sealed (nodes g0)"
  from import_steps [OF a] obtain g4 where
    c: "create_and_connect uniq G g0 = Inr g4" and g: "g = lock_all g4"
    by blast
  from create_and_connect_creates [OF c] s have "list_all sealed (nodes g4)"
    unfolding creates_def by auto
  with lock_all_facts [of g4] g show "list_all sealed (nodes g)"
    using locks_grow_sealed by blast
next
  assume a: "export_node L n s = Inr s'" and c: "op n = ''Constant''"
  from a c obtain outs st2 r st3 where
    k: "constant_node L n outs st2 = Inr (r, st3)" and s': "s' = (fst s @ [r], st3)"
    by (auto simp: export_node_def split: sum.splits prod.splits if_splits)
  from constant_node_op [OF k] s' c
  show "\<exists>r. fst s' = fst s @ [r] \<and> n_op r = ''Constant'' \<and> n_inputs r = []" by auto
qed

text \<open>The import of the graph whose \<^verbatim>\<open>Constant\<close> operator writes the output \<open>c\<close>, and the
  export of the \<^verbatim>\<open>Constant\<close> vertex of the imported graph.\<close>

theorem constant_has_no_input_port_witness:
  "map (\<lambda>n. (op n, length (input_ports n), length (output_ports n))) (nodes (imported const_onnx))
     = [([], 1, 0), (''Constant'', 0, 1)]
   \<and> map (\<lambda>r. (n_op r, n_inputs r, map (\<lambda>v. tensor_name (snd v)) (n_outputs r)))
       (fst (projr (export_node example_libs (nodes (imported const_onnx) ! 1) ([], fresh_state))))
     = [(''Constant'', [], [''c''])]"
proof -
  let ?v = "nodes (imported const_onnx) ! 1"
  let ?e = "export_node example_libs ?v ([], fresh_state)"
  have h: "ONNXtoNodeGraph example_unique_name const_onnx new_graph = Inr (imported const_onnx)"
    by code_simp
  have s0: "list_all sealed (nodes new_graph)" by (simp add: new_graph_def)
  have m: "map (\<lambda>n. (op n, length (output_ports n))) (nodes (imported const_onnx))
     = [([], 0), (''Constant'', 1)]"
    by code_simp
  have li: "map (\<lambda>n. length (input_ports n)) (nodes (imported const_onnx)) ! 0 = 1"
    by code_simp
  have o: "op ?v = ''Constant''" and l: "length (nodes (imported const_onnx)) = 2"
    by code_simp+
  have e: "?e = Inr (projr ?e)" by code_simp
  have nm: "map (\<lambda>r. map (\<lambda>v. tensor_name (snd v)) (n_outputs r)) (fst (projr ?e)) = [[''c'']]"
    by code_simp
  note t1 = conjunct1 [OF constant_has_no_input_port [where uniq = example_unique_name
      and G = const_onnx and ?g0.0 = new_graph and g = "imported const_onnx"]]
  note t3 = conjunct2 [OF constant_has_no_input_port [where L = example_libs and n = ?v
      and s = "([], fresh_state)" and s' = "projr ?e"]]
  from t1 h s0 have "list_all sealed (nodes (imported const_onnx))" by blast
  with l o have 1: "length (input_ports ?v) = 0"
    by (simp add: list_all_length sealed_def)
  from t3 e o obtain r where r: "fst (projr ?e) = [r]" "n_op r = ''Constant''" "n_inputs r = []"
    by auto
  have a: "map (\<lambda>n. (op n, length (input_ports n), length (output_ports n)))
             (nodes (imported const_onnx)) = [([], 1, 0), (''Constant'', 0, 1)]"
    using m li 1 l by (cases "nodes (imported const_onnx)"; cases "tl (nodes (imported const_onnx))") auto
  have b: "map (\<lambda>r. (n_op r, n_inputs r, map (\<lambda>v. tensor_name (snd v)) (n_outputs r)))
       (fst (projr ?e)) = [(''Constant'', [], [''c''])]"
    using r nm by simp
  from a b show ?thesis by simp
qed

text \<open>
  Claim C6 as stated says that a \<^verbatim>\<open>ConstantOfShape\<close> vertex has no input port after the
  import. The import of the graph \<open>s \<rightarrow> ConstantOfShape \<rightarrow> z\<close> gives the Input vertex, the
  Output vertex and a \<^verbatim>\<open>ConstantOfShape\<close> vertex with one input port.
\<close>

theorem ConstantOfShape_keeps_input_port:
  "(case ONNXtoNodeGraph example_unique_name fill_onnx new_graph of
      Inl e \<Rightarrow> []
    | Inr g \<Rightarrow> map (\<lambda>n. (op n, length (input_ports n))) (nodes g))
     = [([], 0), ([], 1), (''ConstantOfShape'', 1)]"
  by code_simp


subsection \<open>Further facts about the round trip\<close>

text \<open>On the graph \<open>x \<rightarrow> Relu \<rightarrow> y\<close> the export of the imported graph is the model it was
  imported from, so importing it again gives the same visual graph.\<close>

lemma roundtrip_relu:
  "NodeGraphtoONNX example_libs (imported relu_onnx) = Inr relu_onnx
   \<and> ONNXtoNodeGraph example_unique_name relu_onnx new_graph = Inr (imported relu_onnx)"
  by code_simp

text \<open>A scalar constant \<open>-1\<close> is imported with the value \<open>-1\<close>, which the export takes for
  the sentinel: it is exported as a variable, and imported again without a value.\<close>

lemma scalar_minus_one_becomes_variable:
  "classify_input (Constant ''idx'' (NDArray ''int64'' [] [- 1]))
     = Inr (OnnxNodeIO ''idx'' (Some ''int64'') (Some []) (PNum (- 1)))
   \<and> fst (projr (resolve L (OnnxNodeIO ''idx'' (Some ''int64'') (Some []) (PNum (- 1))) fresh_state))
     = (0, Variable ''idx'' (Some ''int64'') (Some []))
   \<and> classify_input (Variable ''idx'' (Some ''int64'') (Some []))
     = Inr (OnnxNodeIO ''idx'' (Some ''int64'') (Some []) PNone)"
  by code_simp

end
